theory Spec2Isabelle
  imports Main "HOL-Library.Word"
begin

section \<open>The session-initialisation cache (pkg/sql/sessioninit/cache.go)\<close>

text \<open>
  A shallow embedding of \<^verbatim>\<open>sessioninit.Cache\<close>. Every method that runs under the
  cache's mutex is a function from the cache state to a result and the new state. The
  mutex, the singleflight group and the stopper are scheduling devices and carry no data
  of their own; what other goroutines do to the cache while a caller waits outside the
  lock is an explicit parameter of the two public operations.
\<close>

subsection \<open>Types of the collaborating packages\<close>

text \<open>
  \<^verbatim>\<open>descpb.DescriptorVersion\<close> is an unsigned 64-bit integer and \<^verbatim>\<open>descpb.ID\<close> an unsigned
  32-bit one; \<open><\<close> on words is the unsigned comparison Go performs. A
  \<^verbatim>\<open>security.SQLUsername\<close> wraps one string, which \<^verbatim>\<open>Normalized()\<close> returns; strings are
  byte lists, so \<open>length\<close> is Go's \<^verbatim>\<open>len\<close>.
\<close>

type_synonym DescriptorVersion = "64 word"
type_synonym ID = "32 word"
type_synonym SQLUsername = string

datatype error = Error string

datatype goPanic = NilMapAssignment | InterfaceConversion

text \<open>
  \<^verbatim>\<open>security.PasswordHash\<close> is an interface of another package. The cache only compares
  it with nil and asks for \<^verbatim>\<open>Size()\<close>, so a hash is its bytes together with the size it
  reports.
\<close>

datatype PasswordHash = PasswordHash (hashBytes: string) (hashSize: int)

type_synonym DTimestamp = int

record AuthInfo =
  UserExists :: bool
  CanLoginSQL :: bool
  CanLoginDBConsole :: bool
  HashedPassword :: "PasswordHash option"
  ValidUntil :: "DTimestamp option"

definition zeroAuthInfo :: AuthInfo where
  \<comment> \<open>the composite literal \<^verbatim>\<open>AuthInfo{}\<close>\<close>
  "zeroAuthInfo = \<lparr>UserExists = False, CanLoginSQL = False, CanLoginDBConsole = False,
     HashedPassword = None, ValidUntil = None\<rparr>"

record SettingsCacheKey =
  DatabaseID :: ID
  Username :: SQLUsername

record SettingsCacheEntry =
  SettingsCacheKey :: SettingsCacheKey
  Settings :: "string list"

subsection \<open>Go maps\<close>

text \<open>
  A Go map variable is either nil or an allocated table. Reading a nil map behaves as
  reading an empty one; assigning into a nil map panics.
\<close>

type_synonym ('k, 'v) gomap = "('k \<rightharpoonup> 'v) option"

definition make_map :: "('k, 'v) gomap" where
  "make_map = Some Map.empty"

definition map_index :: "('k, 'v) gomap \<Rightarrow> 'k \<Rightarrow> 'v option" where
  \<comment> \<open>\<^verbatim>\<open>v, ok := m[k]\<close>: \<open>None\<close> is \<^verbatim>\<open>ok == false\<close>\<close>
  "map_index m k = (case m of None \<Rightarrow> None | Some f \<Rightarrow> f k)"

definition map_assign :: "('k, 'v) gomap \<Rightarrow> 'k \<Rightarrow> 'v \<Rightarrow> goPanic + ('k, 'v) gomap" where
  \<comment> \<open>\<^verbatim>\<open>m[k] = v\<close>\<close>
  "map_assign m k v = (case m of None \<Rightarrow> Inl NilMapAssignment | Some f \<Rightarrow> Inr (Some (f(k \<mapsto> v))))"

subsection \<open>The memory account\<close>

text \<open>
  Modelled from the spec: \<^verbatim>\<open>mon.BoundAccount\<close> (pkg/util/mon) is not among the sources.
  The spec describes it as a bounded allocation ledger: \<^verbatim>\<open>grow(byteCount)\<close> either
  reserves the bytes or fails because the budget is exhausted, and \<^verbatim>\<open>empty()\<close> resets
  the usage to zero.
\<close>

record BoundAccount =
  used :: int
  budget :: int

definition Grow :: "BoundAccount \<Rightarrow> int \<Rightarrow> error + BoundAccount" where
  "Grow acc x =
     (if used acc + x \<le> budget acc then Inr (acc\<lparr>used := used acc + x\<rparr>)
      else Inl (Error ''memory budget exceeded''))"

definition Empty :: "BoundAccount \<Rightarrow> BoundAccount" where
  "Empty acc = acc\<lparr>used := 0\<rparr>"

subsection \<open>The cache state\<close>

text \<open>
  The fields of \<^verbatim>\<open>Cache\<close> that hold data. \<open>opsLog\<close> is not a field of the Go struct: it
  stands for the process-wide \<^verbatim>\<open>log.Ops\<close> sink, carried with the state so that a recorded
  warning can be observed (newest entry first).
\<close>

record Cache =
  usersTableVersion :: DescriptorVersion
  roleOptionsTableVersion :: DescriptorVersion
  dbRoleSettingsTableVersion :: DescriptorVersion
  boundAccount :: BoundAccount
  authInfoCache :: "(SQLUsername, AuthInfo) gomap"
  settingsCache :: "(SettingsCacheKey, string list) gomap"
  opsLog :: "string list"

definition NewCache :: "BoundAccount \<Rightarrow> Cache" where
  \<comment> \<open>only the account (and the stopper) are set; every other field has Go's zero value\<close>
  "NewCache account =
     \<lparr>usersTableVersion = 0, roleOptionsTableVersion = 0, dbRoleSettingsTableVersion = 0,
      boundAccount = account, authInfoCache = None, settingsCache = None, opsLog = []\<rparr>"

definition Warningf :: "string \<Rightarrow> error \<Rightarrow> Cache \<Rightarrow> Cache" where
  \<comment> \<open>\<^verbatim>\<open>log.Ops.Warningf(ctx, msg + ": %v", err)\<close>\<close>
  "Warningf msg err a = (case err of Error e \<Rightarrow> a\<lparr>opsLog := (msg @ '': '' @ e) # opsLog a\<rparr>)"

subsection \<open>clearCacheIfStale\<close>

definition clearCacheIfStale ::
  "Cache \<Rightarrow> DescriptorVersion \<Rightarrow> DescriptorVersion \<Rightarrow> DescriptorVersion \<Rightarrow> bool \<times> Cache" where
  "clearCacheIfStale a usersV roleOptionsV dbRoleSettingsV =
     (if usersTableVersion a < usersV \<or>
         roleOptionsTableVersion a < roleOptionsV \<or>
         dbRoleSettingsTableVersion a < dbRoleSettingsV
      then (True, a\<lparr>usersTableVersion := usersV,
                     roleOptionsTableVersion := roleOptionsV,
                     dbRoleSettingsTableVersion := dbRoleSettingsV,
                     authInfoCache := make_map,
                     settingsCache := make_map,
                     boundAccount := Empty (boundAccount a)\<rparr>)
      else if usersTableVersion a > usersV \<or>
              roleOptionsTableVersion a > roleOptionsV \<or>
              dbRoleSettingsTableVersion a > dbRoleSettingsV
      then (False, a)
      else (True, a))"

subsection \<open>Precedence keys\<close>

text \<open>
  Modelled from the spec: \<^verbatim>\<open>defaultDatabaseID\<close> and \<^verbatim>\<open>defaultUsername\<close> are declared in a
  file of the package that is not among the sources. The spec gives database ID 0 as
  the "no specific database" sentinel and the empty username as the "default role".
\<close>

definition defaultDatabaseID :: ID where
  "defaultDatabaseID = 0"

definition defaultUsername :: SQLUsername where
  "defaultUsername = []"

definition GenerateSettingsCacheKeys :: "ID \<Rightarrow> SQLUsername \<Rightarrow> SettingsCacheKey list" where
  "GenerateSettingsCacheKeys databaseID username =
     [\<lparr>DatabaseID = databaseID, Username = username\<rparr>,
      \<lparr>DatabaseID = defaultDatabaseID, Username = username\<rparr>,
      \<lparr>DatabaseID = databaseID, Username = defaultUsername\<rparr>,
      \<lparr>DatabaseID = defaultDatabaseID, Username = defaultUsername\<rparr>]"

subsection \<open>Size estimates\<close>

text \<open>
  The four \<^verbatim>\<open>unsafe.Sizeof\<close> constants depend on the layout of types declared in other
  packages. The values are those of a 64-bit platform (a string header is 16 bytes, a
  slice header 24, an interface 16); no theorem below depends on them. Go computes the
  sums in \<^verbatim>\<open>int\<close>; they are far below \<open>2^63\<close> for any input that fits in memory.
\<close>

definition sizeOfUsername :: int where
  "sizeOfUsername = 16"

definition sizeOfAuthInfo :: int where
  "sizeOfAuthInfo = 32"

definition sizeOfTimestamp :: int where
  "sizeOfTimestamp = 24"

definition sizeOfSettingsCacheEntry :: int where
  "sizeOfSettingsCacheEntry = 48"

definition noMemoryMsg :: string where
  "noMemoryMsg = ''no memory available to cache authentication info''"

subsection \<open>Authentication info: lookup and write-back\<close>

definition readAuthInfoFromCache ::
  "Cache \<Rightarrow> DescriptorVersion \<Rightarrow> DescriptorVersion \<Rightarrow> SQLUsername \<Rightarrow> (AuthInfo \<times> bool) \<times> Cache" where
  "readAuthInfoFromCache a usersV roleOptionsV username =
     (let (isEligibleForCache, a') =
            clearCacheIfStale a usersV roleOptionsV (dbRoleSettingsTableVersion a)
      in if \<not> isEligibleForCache then ((zeroAuthInfo, False), a')
         else (case map_index (authInfoCache a') username of
                 None \<Rightarrow> ((zeroAuthInfo, False), a')
               | Some ai \<Rightarrow> ((ai, True), a')))"

definition authInfoSizeOfEntry :: "AuthInfo \<Rightarrow> SQLUsername \<Rightarrow> int" where
  "authInfoSizeOfEntry aInfo username =
     (let hpSize = (case HashedPassword aInfo of None \<Rightarrow> 0 | Some h \<Rightarrow> hashSize h)
      in sizeOfUsername + int (length username) + sizeOfAuthInfo + hpSize + sizeOfTimestamp)"

definition maybeWriteAuthInfoBackToCache ::
  "Cache \<Rightarrow> DescriptorVersion \<Rightarrow> DescriptorVersion \<Rightarrow> AuthInfo \<Rightarrow> SQLUsername
     \<Rightarrow> goPanic + (bool \<times> Cache)" where
  "maybeWriteAuthInfoBackToCache a usersV roleOptionsV aInfo username =
     (if usersTableVersion a \<noteq> usersV \<or> roleOptionsTableVersion a \<noteq> roleOptionsV
      then Inr (False, a)
      else (case Grow (boundAccount a) (authInfoSizeOfEntry aInfo username) of
              Inl err \<Rightarrow> Inr (True, Warningf noMemoryMsg err a)
            | Inr acc \<Rightarrow>
                (case map_assign (authInfoCache a) username aInfo of
                   Inl p \<Rightarrow> Inl p
                 | Inr m \<Rightarrow> Inr (True, a\<lparr>boundAccount := acc, authInfoCache := m\<rparr>))))"

subsection \<open>Default settings: lookup and write-back\<close>

text \<open>
  The lookup loop appends one entry per key and breaks at the first key that is absent,
  returning what it has collected so far together with \<^verbatim>\<open>false\<close>.
\<close>

fun collectSettings ::
  "(SettingsCacheKey, string list) gomap \<Rightarrow> SettingsCacheKey list \<Rightarrow> SettingsCacheEntry list
     \<Rightarrow> SettingsCacheEntry list \<times> bool" where
  "collectSettings m [] sEntries = (sEntries, True)"
| "collectSettings m (k # ks) sEntries =
     (case map_index m k of
        None \<Rightarrow> (sEntries, False)
      | Some s \<Rightarrow> collectSettings m ks (sEntries @ [\<lparr>SettingsCacheKey = k, Settings = s\<rparr>]))"

definition readDefaultSettingsFromCache ::
  "Cache \<Rightarrow> DescriptorVersion \<Rightarrow> SQLUsername \<Rightarrow> ID \<Rightarrow> (SettingsCacheEntry list \<times> bool) \<times> Cache" where
  "readDefaultSettingsFromCache a dbRoleSettingsV username databaseID =
     (let (isEligibleForCache, a') =
            clearCacheIfStale a (usersTableVersion a) (roleOptionsTableVersion a) dbRoleSettingsV
      in if \<not> isEligibleForCache then (([], False), a')
         else (collectSettings (settingsCache a') (GenerateSettingsCacheKeys databaseID username) [],
               a'))"

definition settingsEntrySize :: "SettingsCacheEntry \<Rightarrow> int" where
  \<comment> \<open>what one entry that is not yet cached adds to \<^verbatim>\<open>sizeOfSettings\<close>\<close>
  "settingsEntrySize sEntry =
     foldl (\<lambda>n s. n + int (length s))
       (sizeOfSettingsCacheEntry + int (length (Username (SettingsCacheKey sEntry))))
       (Settings sEntry)"

fun sizeOfSettings ::
  "(SettingsCacheKey, string list) gomap \<Rightarrow> SettingsCacheEntry list \<Rightarrow> int \<Rightarrow> int" where
  "sizeOfSettings m [] n = n"
| "sizeOfSettings m (sEntry # rest) n =
     (if map_index m (SettingsCacheKey sEntry) \<noteq> None then sizeOfSettings m rest n
      else sizeOfSettings m rest (n + settingsEntrySize sEntry))"

fun storeSettings ::
  "(SettingsCacheKey, string list) gomap \<Rightarrow> SettingsCacheEntry list
     \<Rightarrow> goPanic + (SettingsCacheKey, string list) gomap" where
  "storeSettings m [] = Inr m"
| "storeSettings m (sEntry # rest) =
     (if map_index m (SettingsCacheKey sEntry) = None
      then (case map_assign m (SettingsCacheKey sEntry) (Settings sEntry) of
              Inl p \<Rightarrow> Inl p
            | Inr m' \<Rightarrow> storeSettings m' rest)
      else storeSettings m rest)"

definition maybeWriteDefaultSettingsBackToCache ::
  "Cache \<Rightarrow> DescriptorVersion \<Rightarrow> SettingsCacheEntry list \<Rightarrow> goPanic + (bool \<times> Cache)" where
  "maybeWriteDefaultSettingsBackToCache a dbRoleSettingsV settingsEntries =
     (if dbRoleSettingsTableVersion a \<noteq> dbRoleSettingsV then Inr (False, a)
      else (case Grow (boundAccount a) (sizeOfSettings (settingsCache a) settingsEntries 0) of
              Inl err \<Rightarrow> Inr (True, Warningf noMemoryMsg err a)
            | Inr acc \<Rightarrow>
                (case storeSettings (settingsCache a) settingsEntries of
                   Inl p \<Rightarrow> Inl p
                 | Inr m \<Rightarrow> Inr (True, a\<lparr>boundAccount := acc, settingsCache := m\<rparr>))))"

subsection \<open>The public operations\<close>

text \<open>
  The catalog collaborator: \<^verbatim>\<open>descs.Collection\<close> resolves a system table name to its
  descriptor, of which the cache reads the version and whether that version is
  uncommitted, and a database name to a descriptor (nil, here \<open>None\<close>, when there is no
  such database) of which it reads the ID. \<^verbatim>\<open>CollectionFactory.Txn\<close> runs the closure it
  is given against one such collection and returns the closure's error.
\<close>

datatype TableName = UsersTableName | RoleOptionsTableName | DatabaseRoleSettingsTableName

record TableDesc =
  GetVersion :: DescriptorVersion
  IsUncommittedVersion :: bool

record Collection =
  GetImmutableTableByName :: "TableName \<Rightarrow> error + TableDesc"
  GetImmutableDatabaseByName :: "string \<Rightarrow> error + ID option"

text \<open>The dynamic types that travel through \<^verbatim>\<open>loadCacheValue\<close> as \<^verbatim>\<open>interface{}\<close>.\<close>

datatype iface = AuthInfoVal AuthInfo | SettingsVal "SettingsCacheEntry list"

text \<open>
  \<^verbatim>\<open>loadCacheValue\<close> for one caller: the singleflight group runs \<^verbatim>\<open>fn\<close> and sends its
  result on the channel; the \<^verbatim>\<open>select\<close> then takes either that result or the caller's
  own cancellation. \<open>ctxDone\<close> is \<open>Some err\<close> when the \<^verbatim>\<open>ctx.Done()\<close> case is the one
  taken, with \<open>err\<close> the value of \<^verbatim>\<open>ctx.Err()\<close>. The request key only matters between
  concurrent callers and is left out.
\<close>

definition loadCacheValue ::
  "error option \<Rightarrow> (unit \<Rightarrow> iface \<times> error option) \<Rightarrow> iface \<times> error option" where
  "loadCacheValue ctxDone fn =
     (let res = fn ()
      in case ctxDone of
           Some err \<Rightarrow> (AuthInfoVal zeroAuthInfo, Some err)
         | None \<Rightarrow>
             (case snd res of
                Some err \<Rightarrow> (AuthInfoVal zeroAuthInfo, Some err)
              | None \<Rightarrow> (fst res, None)))"

text \<open>
  \<open>GetAuthInfo\<close> returns the pair of its named results and the cache it leaves behind.
  \<open>interleaved\<close> is what other goroutines do to the cache between the moment
  \<^verbatim>\<open>readAuthInfoFromCache\<close> releases the lock and the moment the write-back takes it again.
\<close>

definition GetAuthInfo ::
  "Cache \<Rightarrow> bool \<Rightarrow> Collection \<Rightarrow> SQLUsername \<Rightarrow> (SQLUsername \<Rightarrow> AuthInfo \<times> error option)
     \<Rightarrow> error option \<Rightarrow> (Cache \<Rightarrow> Cache) \<Rightarrow> goPanic + ((AuthInfo \<times> error option) \<times> Cache)" where
  "GetAuthInfo a cacheEnabled descriptors username readFromSystemTables ctxDone interleaved =
     (if \<not> cacheEnabled then Inr (readFromSystemTables username, a)
      else
        (case GetImmutableTableByName descriptors UsersTableName of
           Inl err \<Rightarrow> Inr ((zeroAuthInfo, Some err), a)
         | Inr usersTableDesc \<Rightarrow>
        (case GetImmutableTableByName descriptors RoleOptionsTableName of
           Inl err \<Rightarrow> Inr ((zeroAuthInfo, Some err), a)
         | Inr roleOptionsTableDesc \<Rightarrow>
        if IsUncommittedVersion usersTableDesc \<or> IsUncommittedVersion roleOptionsTableDesc
        then Inr (readFromSystemTables username, a)
        else
          (let usersV = GetVersion usersTableDesc;
               roleOptionsV = GetVersion roleOptionsTableDesc;
               ((aInfo, found), a1) = readAuthInfoFromCache a usersV roleOptionsV username
           in if found then Inr ((aInfo, None), a1)
              else
                (case loadCacheValue ctxDone
                        (\<lambda>_. case readFromSystemTables username of
                                (ai, err) \<Rightarrow> (AuthInfoVal ai, err)) of
                   (val, Some err) \<Rightarrow> Inr ((aInfo, Some err), interleaved a1)
                 | (val, None) \<Rightarrow>
                     (case val of
                        SettingsVal es \<Rightarrow> Inl InterfaceConversion
                      | AuthInfoVal fetched \<Rightarrow>
                          (case maybeWriteAuthInfoBackToCache (interleaved a1)
                                  usersV roleOptionsV fetched username of
                             Inl p \<Rightarrow> Inl p
                           | Inr (ok, a2) \<Rightarrow> Inr ((fetched, None), a2))))))))"

definition resolveDatabaseID :: "Collection \<Rightarrow> string \<Rightarrow> error + ID" where
  \<comment> \<open>the \<^verbatim>\<open>databaseID\<close> block of \<^verbatim>\<open>GetDefaultSettings\<close>\<close>
  "resolveDatabaseID descriptors databaseName =
     (if databaseName \<noteq> []
      then (case GetImmutableDatabaseByName descriptors databaseName of
              Inl err \<Rightarrow> Inl err
            | Inr None \<Rightarrow> Inr 0
            | Inr (Some dbID) \<Rightarrow> Inr dbID)
      else Inr 0)"

definition GetDefaultSettings ::
  "Cache \<Rightarrow> bool \<Rightarrow> Collection \<Rightarrow> SQLUsername \<Rightarrow> string
     \<Rightarrow> (SQLUsername \<Rightarrow> ID \<Rightarrow> SettingsCacheEntry list \<times> error option)
     \<Rightarrow> error option \<Rightarrow> (Cache \<Rightarrow> Cache)
     \<Rightarrow> goPanic + ((SettingsCacheEntry list \<times> error option) \<times> Cache)" where
  "GetDefaultSettings a cacheEnabled descriptors username databaseName readFromSystemTables
       ctxDone interleaved =
     (case GetImmutableTableByName descriptors DatabaseRoleSettingsTableName of
        Inl err \<Rightarrow> Inr (([], Some err), a)
      | Inr dbRoleSettingsTableDesc \<Rightarrow>
     (case resolveDatabaseID descriptors databaseName of
        Inl err \<Rightarrow> Inr (([], Some err), a)
      | Inr databaseID \<Rightarrow>
     if IsUncommittedVersion dbRoleSettingsTableDesc \<or> \<not> cacheEnabled
     then Inr (readFromSystemTables username databaseID, a)
     else
       (let dbRoleSettingsV = GetVersion dbRoleSettingsTableDesc;
            ((settingsEntries, found), a1) =
               readDefaultSettingsFromCache a dbRoleSettingsV username databaseID
        in if found then Inr ((settingsEntries, None), a1)
           else
             (case loadCacheValue ctxDone
                     (\<lambda>_. case readFromSystemTables username databaseID of
                             (es, err) \<Rightarrow> (SettingsVal es, err)) of
                (val, Some err) \<Rightarrow> Inr ((settingsEntries, Some err), interleaved a1)
              | (val, None) \<Rightarrow>
                  (case val of
                     AuthInfoVal ai \<Rightarrow> Inl InterfaceConversion
                   | SettingsVal fetched \<Rightarrow>
                       (case maybeWriteDefaultSettingsBackToCache (interleaved a1)
                               dbRoleSettingsV fetched of
                          Inl p \<Rightarrow> Inl p
                        | Inr (ok, a2) \<Rightarrow> Inr ((fetched, None), a2)))))))"

subsection \<open>Sequences of operations on the state\<close>

datatype cacheOp =
    ReadAuthInfoFromCache DescriptorVersion DescriptorVersion SQLUsername
  | ReadDefaultSettingsFromCache DescriptorVersion SQLUsername ID
  | MaybeWriteAuthInfoBackToCache DescriptorVersion DescriptorVersion AuthInfo SQLUsername
  | MaybeWriteDefaultSettingsBackToCache DescriptorVersion "SettingsCacheEntry list"
  | ClearCacheIfStale DescriptorVersion DescriptorVersion DescriptorVersion

fun applyOp :: "cacheOp \<Rightarrow> Cache \<Rightarrow> goPanic + Cache" where
  "applyOp (ReadAuthInfoFromCache u r username) a = Inr (snd (readAuthInfoFromCache a u r username))"
| "applyOp (ReadDefaultSettingsFromCache d username databaseID) a =
     Inr (snd (readDefaultSettingsFromCache a d username databaseID))"
| "applyOp (MaybeWriteAuthInfoBackToCache u r aInfo username) a =
     (case maybeWriteAuthInfoBackToCache a u r aInfo username of
        Inl p \<Rightarrow> Inl p | Inr (ok, a') \<Rightarrow> Inr a')"
| "applyOp (MaybeWriteDefaultSettingsBackToCache d settingsEntries) a =
     (case maybeWriteDefaultSettingsBackToCache a d settingsEntries of
        Inl p \<Rightarrow> Inl p | Inr (ok, a') \<Rightarrow> Inr a')"
| "applyOp (ClearCacheIfStale u r d) a = Inr (snd (clearCacheIfStale a u r d))"

fun runOps :: "Cache \<Rightarrow> cacheOp list \<Rightarrow> goPanic + Cache" where
  "runOps a [] = Inr a"
| "runOps a (op # ops) = (case applyOp op a of Inl p \<Rightarrow> Inl p | Inr a' \<Rightarrow> runOps a' ops)"

text \<open>
  The versions an operation hands to \<^verbatim>\<open>clearCacheIfStale\<close>: the two lookups pass the
  stored value for the tables they do not depend on; the write-backs never call it.
\<close>

fun suppliedVersions ::
  "cacheOp \<Rightarrow> Cache \<Rightarrow> (DescriptorVersion \<times> DescriptorVersion \<times> DescriptorVersion) option" where
  "suppliedVersions (ReadAuthInfoFromCache u r username) a = Some (u, r, dbRoleSettingsTableVersion a)"
| "suppliedVersions (ReadDefaultSettingsFromCache d username databaseID) a =
     Some (usersTableVersion a, roleOptionsTableVersion a, d)"
| "suppliedVersions (ClearCacheIfStale u r d) a = Some (u, r, d)"
| "suppliedVersions (MaybeWriteAuthInfoBackToCache u r aInfo username) a = None"
| "suppliedVersions (MaybeWriteDefaultSettingsBackToCache d settingsEntries) a = None"

definition watermarks :: "Cache \<Rightarrow> DescriptorVersion \<times> DescriptorVersion \<times> DescriptorVersion" where
  "watermarks a = (usersTableVersion a, roleOptionsTableVersion a, dbRoleSettingsTableVersion a)"

subsection \<open>Example states\<close>

definition exampleAccount :: BoundAccount where
  "exampleAccount = \<lparr>used = 0, budget = 4096\<rparr>"

definition cache51 :: Cache where
  \<comment> \<open>a fresh cache after one lookup at versions (users 5, role options 1, settings 0)\<close>
  "cache51 = snd (clearCacheIfStale (NewCache exampleAccount) 5 1 0)"

definition committedAt ::
  "DescriptorVersion \<Rightarrow> DescriptorVersion \<Rightarrow> DescriptorVersion \<Rightarrow> Collection" where
  \<comment> \<open>a catalog whose three system tables are committed at the given versions and which
      knows one database, \<^verbatim>\<open>defaultdb\<close>, with ID 7\<close>
  "committedAt u r d =
     \<lparr>GetImmutableTableByName =
        (\<lambda>t. Inr \<lparr>GetVersion = (case t of UsersTableName \<Rightarrow> u | RoleOptionsTableName \<Rightarrow> r
                                   | DatabaseRoleSettingsTableName \<Rightarrow> d),
                  IsUncommittedVersion = False\<rparr>),
      GetImmutableDatabaseByName =
        (\<lambda>n. if n = ''defaultdb'' then Inr (Some 7) else Inr None)\<rparr>"

definition alice :: AuthInfo where
  "alice = \<lparr>UserExists = True, CanLoginSQL = True, CanLoginDBConsole = True,
     HashedPassword = Some (PasswordHash ''H'' 1), ValidUntil = None\<rparr>"

definition readAlice :: "SQLUsername \<Rightarrow> AuthInfo \<times> error option" where
  "readAlice username = (if username = ''alice'' then (alice, None) else (zeroAuthInfo, None))"

definition bobSettings :: "SettingsCacheEntry list" where
  "bobSettings =
     [\<lparr>SettingsCacheKey = \<lparr>DatabaseID = 7, Username = ''bob''\<rparr>, Settings = [''timezone=utc'']\<rparr>,
      \<lparr>SettingsCacheKey = \<lparr>DatabaseID = 0, Username = ''bob''\<rparr>, Settings = []\<rparr>,
      \<lparr>SettingsCacheKey = \<lparr>DatabaseID = 7, Username = []\<rparr>, Settings = [''search_path=public'']\<rparr>,
      \<lparr>SettingsCacheKey = \<lparr>DatabaseID = 0, Username = []\<rparr>, Settings = []\<rparr>]"

definition readBob :: "SQLUsername \<Rightarrow> ID \<Rightarrow> SettingsCacheEntry list \<times> error option" where
  "readBob username databaseID = (bobSettings, None)"

definition cache004 :: Cache where
  \<comment> \<open>a fresh cache after one settings lookup at db-role-settings version 4\<close>
  "cache004 = snd (clearCacheIfStale (NewCache exampleAccount) 0 0 4)"

definition cacheTight :: Cache where
  \<comment> \<open>as \<open>cache51\<close>, with an account whose budget is zero\<close>
  "cacheTight = snd (clearCacheIfStale (NewCache \<lparr>used = 0, budget = 0\<rparr>) 5 1 0)"

definition cacheBob3 :: Cache where
  \<comment> \<open>\<open>cache51\<close> holding three of the four precedence keys of (7, bob): (0, bob) is absent\<close>
  "cacheBob3 = cache51\<lparr>settingsCache :=
     Some [\<lparr>DatabaseID = 7, Username = ''bob''\<rparr> \<mapsto> [''timezone=utc''],
           \<lparr>DatabaseID = 7, Username = []\<rparr> \<mapsto> [''search_path=public''],
           \<lparr>DatabaseID = 0, Username = []\<rparr> \<mapsto> []]\<rparr>"

definition cacheBob4 :: Cache where
  \<comment> \<open>\<open>cacheBob3\<close> after \<open>bobSettings\<close> has been written back: (0, bob) is charged and stored\<close>
  "cacheBob4 = cacheBob3\<lparr>boundAccount := \<lparr>used = 51, budget = 4096\<rparr>,
     settingsCache :=
     Some [\<lparr>DatabaseID = 7, Username = ''bob''\<rparr> \<mapsto> [''timezone=utc''],
           \<lparr>DatabaseID = 7, Username = []\<rparr> \<mapsto> [''search_path=public''],
           \<lparr>DatabaseID = 0, Username = []\<rparr> \<mapsto> [],
           \<lparr>DatabaseID = 0, Username = ''bob''\<rparr> \<mapsto> []]\<rparr>"

definition lookupAt61 :: "Cache \<Rightarrow> Cache" where
  \<comment> \<open>another session looks a user up at users version 6 while a fetch is in flight\<close>
  "lookupAt61 a = snd (readAuthInfoFromCache a 6 1 ''carol'')"

definition lookupAt1 :: "Cache \<Rightarrow> Cache" where
  \<comment> \<open>another session looks settings up at db-role-settings version 1\<close>
  "lookupAt1 a = snd (readDefaultSettingsFromCache a 1 ''carol'' 0)"

section \<open>Properties\<close>

subsection \<open>The staleness check\<close>

text \<open>
  C1 (as amended). Whenever at least one version supplied to \<^verbatim>\<open>clearCacheIfStale\<close> is
  strictly greater than the stored watermark, the call reports the cache eligible and
  leaves the state with all three watermarks equal to the supplied versions, both
  mappings freshly allocated and empty, and the memory account reset to zero; nothing
  else changes. The watermarks are assigned, not maximised: a watermark whose stored
  value does not exceed the supplied one ends at the maximum of the two, and one whose
  stored value exceeds the supplied one is lowered to it.
\<close>

theorem clearCacheIfStale_clears:
  assumes "usersTableVersion a < u \<or> roleOptionsTableVersion a < r \<or>
           dbRoleSettingsTableVersion a < d"
  shows "clearCacheIfStale a u r d =
           (True, a\<lparr>usersTableVersion := u, roleOptionsTableVersion := r,
                    dbRoleSettingsTableVersion := d,
                    authInfoCache := Some Map.empty, settingsCache := Some Map.empty,
                    boundAccount := (boundAccount a)\<lparr>used := 0\<rparr>\<rparr>)"
  using assms by (simp add: clearCacheIfStale_def make_map_def Empty_def)

theorem clearCacheIfStale_clears_witness:
  "(usersTableVersion cache51 < 3 \<or> roleOptionsTableVersion cache51 < 2 \<or>
      dbRoleSettingsTableVersion cache51 < 0)
   \<and> usersTableVersion cache51 = 5
   \<and> clearCacheIfStale cache51 3 2 0 =
       (True, cache51\<lparr>usersTableVersion := 3, roleOptionsTableVersion := 2,
                       dbRoleSettingsTableVersion := 0,
                       authInfoCache := Some Map.empty, settingsCache := Some Map.empty,
                       boundAccount := (boundAccount cache51)\<lparr>used := 0\<rparr>\<rparr>)"
  using clearCacheIfStale_clears [of cache51 3 2 0]
  by (simp add: cache51_def clearCacheIfStale_def NewCache_def)

text \<open>
  C1 as stated fails: with stored watermarks (5, 1, 0) and supplied versions (3, 2, 0)
  the role-options version is newer, so the cache is cleared, and the users watermark
  ends at 3, below the maximum 5 of the stored and the supplied value.
\<close>

theorem clearCacheIfStale_max_counterexample:
  "(usersTableVersion cache51 < 3 \<or> roleOptionsTableVersion cache51 < 2 \<or>
      dbRoleSettingsTableVersion cache51 < 0)
   \<and> usersTableVersion (snd (clearCacheIfStale cache51 3 2 0))
       < max (usersTableVersion cache51) 3"
  by (simp add: cache51_def clearCacheIfStale_def NewCache_def)

subsection \<open>Precedence keys\<close>

text \<open>
  C7. \<^verbatim>\<open>GenerateSettingsCacheKeys\<close> returns exactly four keys in descending precedence:
  (database, user), (default database, user), (database, default user), (default
  database, default user). For database 7 and user bob these are (7, bob), (0, bob),
  (7, empty), (0, empty).
\<close>

theorem GenerateSettingsCacheKeys_order:
  "GenerateSettingsCacheKeys databaseID username =
     [\<lparr>DatabaseID = databaseID, Username = username\<rparr>,
      \<lparr>DatabaseID = defaultDatabaseID, Username = username\<rparr>,
      \<lparr>DatabaseID = databaseID, Username = defaultUsername\<rparr>,
      \<lparr>DatabaseID = defaultDatabaseID, Username = defaultUsername\<rparr>]
   \<and> length (GenerateSettingsCacheKeys databaseID username) = 4
   \<and> GenerateSettingsCacheKeys 7 ''bob'' =
       [\<lparr>DatabaseID = 7, Username = ''bob''\<rparr>, \<lparr>DatabaseID = 0, Username = ''bob''\<rparr>,
        \<lparr>DatabaseID = 7, Username = ''''\<rparr>, \<lparr>DatabaseID = 0, Username = ''''\<rparr>]"
  by (simp add: GenerateSettingsCacheKeys_def defaultDatabaseID_def defaultUsername_def)

subsection \<open>The example states, evaluated\<close>

lemma cache51_eq:
  "cache51 = \<lparr>usersTableVersion = 5, roleOptionsTableVersion = 1, dbRoleSettingsTableVersion = 0,
      boundAccount = exampleAccount, authInfoCache = Some Map.empty,
      settingsCache = Some Map.empty, opsLog = []\<rparr>"
  by (simp add: cache51_def clearCacheIfStale_def NewCache_def make_map_def Empty_def
      exampleAccount_def)

lemma cache004_eq:
  "cache004 = \<lparr>usersTableVersion = 0, roleOptionsTableVersion = 0, dbRoleSettingsTableVersion = 4,
      boundAccount = exampleAccount, authInfoCache = Some Map.empty,
      settingsCache = Some Map.empty, opsLog = []\<rparr>"
  by (simp add: cache004_def clearCacheIfStale_def NewCache_def make_map_def Empty_def
      exampleAccount_def)

lemma committedAt_tables:
  "GetImmutableTableByName (committedAt u r d) UsersTableName =
     Inr \<lparr>GetVersion = u, IsUncommittedVersion = False\<rparr>"
  "GetImmutableTableByName (committedAt u r d) RoleOptionsTableName =
     Inr \<lparr>GetVersion = r, IsUncommittedVersion = False\<rparr>"
  "GetImmutableTableByName (committedAt u r d) DatabaseRoleSettingsTableName =
     Inr \<lparr>GetVersion = d, IsUncommittedVersion = False\<rparr>"
  by (simp_all add: committedAt_def)

lemma committedAt_defaultdb:
  "resolveDatabaseID (committedAt u r d) ''defaultdb'' = Inr 7"
  by (simp add: committedAt_def resolveDatabaseID_def)

subsection \<open>A caller behind the cache\<close>

text \<open>
  C3. When no version supplied to \<^verbatim>\<open>clearCacheIfStale\<close> is strictly greater than its
  stored watermark and at least one is strictly smaller, the call reports not eligible
  and returns the state as it was: watermarks, both mappings, the account and the log.
  The two lookups then report a miss without touching the state, the write-back that
  follows declines as well, and the public operation hands back what the reader fetched
  (or the reader's error) and leaves the cache as it found it.
\<close>

theorem not_eligible_bypasses_cache:
  assumes "\<not> (usersTableVersion a < u \<or> roleOptionsTableVersion a < r \<or>
              dbRoleSettingsTableVersion a < d)"
      and "u < usersTableVersion a \<or> r < roleOptionsTableVersion a \<or>
           d < dbRoleSettingsTableVersion a"
  shows "clearCacheIfStale a u r d = (False, a)
     \<and> (d = dbRoleSettingsTableVersion a \<longrightarrow>
          readAuthInfoFromCache a u r username = ((zeroAuthInfo, False), a)
        \<and> maybeWriteAuthInfoBackToCache a u r aInfo username = Inr (False, a)
        \<and> (GetImmutableTableByName descriptors UsersTableName =
               Inr \<lparr>GetVersion = u, IsUncommittedVersion = False\<rparr>
           \<and> GetImmutableTableByName descriptors RoleOptionsTableName =
               Inr \<lparr>GetVersion = r, IsUncommittedVersion = False\<rparr>
           \<longrightarrow> GetAuthInfo a True descriptors username readAuth None (\<lambda>c. c) =
                 Inr ((case readAuth username of
                         (fetched, None) \<Rightarrow> (fetched, None)
                       | (fetched, Some err) \<Rightarrow> (zeroAuthInfo, Some err)), a)))
     \<and> (u = usersTableVersion a \<and> r = roleOptionsTableVersion a \<longrightarrow>
          readDefaultSettingsFromCache a d username databaseID = (([], False), a)
        \<and> maybeWriteDefaultSettingsBackToCache a d settingsEntries = Inr (False, a)
        \<and> (GetImmutableTableByName descriptors DatabaseRoleSettingsTableName =
               Inr \<lparr>GetVersion = d, IsUncommittedVersion = False\<rparr>
           \<and> resolveDatabaseID descriptors databaseName = Inr databaseID
           \<longrightarrow> GetDefaultSettings a True descriptors username databaseName readSettings None
                   (\<lambda>c. c) =
                 Inr ((case readSettings username databaseID of
                         (fetched, None) \<Rightarrow> (fetched, None)
                       | (fetched, Some err) \<Rightarrow> ([], Some err)), a)))"
proof -
  have clear: "clearCacheIfStale a u r d = (False, a)"
    using assms by (simp add: clearCacheIfStale_def)
  have auth: "readAuthInfoFromCache a u r username = ((zeroAuthInfo, False), a)"
    and authw: "\<And>ai. maybeWriteAuthInfoBackToCache a u r ai username = Inr (False, a)"
    if "d = dbRoleSettingsTableVersion a"
    using clear assms that
    by (auto simp add: readAuthInfoFromCache_def maybeWriteAuthInfoBackToCache_def)
  have sett: "readDefaultSettingsFromCache a d username databaseID = (([], False), a)"
    and settw: "\<And>es. maybeWriteDefaultSettingsBackToCache a d es = Inr (False, a)"
    if "u = usersTableVersion a \<and> r = roleOptionsTableVersion a"
    using clear assms that
    by (auto simp add: readDefaultSettingsFromCache_def maybeWriteDefaultSettingsBackToCache_def)
  have authf: "GetAuthInfo a True descriptors username readAuth None (\<lambda>c. c) =
                 Inr ((case readAuth username of
                         (fetched, None) \<Rightarrow> (fetched, None)
                       | (fetched, Some err) \<Rightarrow> (zeroAuthInfo, Some err)), a)"
    if "d = dbRoleSettingsTableVersion a"
      and "GetImmutableTableByName descriptors UsersTableName =
               Inr \<lparr>GetVersion = u, IsUncommittedVersion = False\<rparr>"
      and "GetImmutableTableByName descriptors RoleOptionsTableName =
               Inr \<lparr>GetVersion = r, IsUncommittedVersion = False\<rparr>"
    using that auth [OF that(1)] authw [OF that(1)]
    by (simp add: GetAuthInfo_def loadCacheValue_def split: prod.splits option.splits)
  have settf: "GetDefaultSettings a True descriptors username databaseName readSettings None
                   (\<lambda>c. c) =
                 Inr ((case readSettings username databaseID of
                         (fetched, None) \<Rightarrow> (fetched, None)
                       | (fetched, Some err) \<Rightarrow> ([], Some err)), a)"
    if "u = usersTableVersion a \<and> r = roleOptionsTableVersion a"
      and "GetImmutableTableByName descriptors DatabaseRoleSettingsTableName =
               Inr \<lparr>GetVersion = d, IsUncommittedVersion = False\<rparr>"
      and "resolveDatabaseID descriptors databaseName = Inr databaseID"
    using that sett [OF that(1)] settw [OF that(1)]
    by (simp add: GetDefaultSettings_def loadCacheValue_def split: prod.splits option.splits)
  show ?thesis
    using clear auth authw sett settw authf settf by blast
qed

theorem not_eligible_bypasses_cache_witness:
  "\<not> (usersTableVersion cache51 < 3 \<or> roleOptionsTableVersion cache51 < 1 \<or>
        dbRoleSettingsTableVersion cache51 < 0)
   \<and> (3 < usersTableVersion cache51 \<or> 1 < roleOptionsTableVersion cache51 \<or>
        0 < dbRoleSettingsTableVersion cache51)
   \<and> clearCacheIfStale cache51 3 1 0 = (False, cache51)
   \<and> readAuthInfoFromCache cache51 3 1 ''alice'' = ((zeroAuthInfo, False), cache51)
   \<and> maybeWriteAuthInfoBackToCache cache51 3 1 alice ''alice'' = Inr (False, cache51)
   \<and> GetAuthInfo cache51 True (committedAt 3 1 0) ''alice'' readAlice None (\<lambda>c. c) =
       Inr ((alice, None), cache51)
   \<and> readDefaultSettingsFromCache cache004 2 ''bob'' 7 = (([], False), cache004)
   \<and> maybeWriteDefaultSettingsBackToCache cache004 2 bobSettings = Inr (False, cache004)
   \<and> GetDefaultSettings cache004 True (committedAt 0 0 2) ''bob'' ''defaultdb'' readBob None
         (\<lambda>c. c) = Inr ((bobSettings, None), cache004)"
proof -
  have h1: "\<not> (usersTableVersion cache51 < 3 \<or> roleOptionsTableVersion cache51 < 1 \<or>
        dbRoleSettingsTableVersion cache51 < 0)"
    and h2: "3 < usersTableVersion cache51 \<or> 1 < roleOptionsTableVersion cache51 \<or>
        0 < dbRoleSettingsTableVersion cache51"
    and h3: "0 = dbRoleSettingsTableVersion cache51"
    by (simp_all add: cache51_eq)
  have g1: "\<not> (usersTableVersion cache004 < 0 \<or> roleOptionsTableVersion cache004 < 0 \<or>
        dbRoleSettingsTableVersion cache004 < 2)"
    and g2: "0 < usersTableVersion cache004 \<or> 0 < roleOptionsTableVersion cache004 \<or>
        2 < dbRoleSettingsTableVersion cache004"
    and g3: "0 = usersTableVersion cache004 \<and> 0 = roleOptionsTableVersion cache004"
    by (simp_all add: cache004_eq)
  note auth = not_eligible_bypasses_cache [OF h1 h2, where username = "''alice''"
      and aInfo = alice and descriptors = "committedAt 3 1 0" and readAuth = readAlice]
  note sett = not_eligible_bypasses_cache [OF g1 g2, where username = "''bob''"
      and databaseID = 7 and settingsEntries = bobSettings
      and descriptors = "committedAt 0 0 2" and databaseName = "''defaultdb''"
      and readSettings = readBob]
  show ?thesis
    using h1 h2 h3 g3 auth sett
    by (simp add: committedAt_tables committedAt_defaultdb readAlice_def readBob_def)
qed

subsection \<open>How the watermarks move\<close>

lemma clearCacheIfStale_watermarks:
  "watermarks (snd (clearCacheIfStale a u r d)) =
     (if usersTableVersion a < u \<or> roleOptionsTableVersion a < r \<or>
         dbRoleSettingsTableVersion a < d
      then (u, r, d) else watermarks a)"
  by (simp add: clearCacheIfStale_def watermarks_def)

lemma readAuthInfoFromCache_state:
  "snd (readAuthInfoFromCache a u r username) =
     snd (clearCacheIfStale a u r (dbRoleSettingsTableVersion a))"
  by (simp add: readAuthInfoFromCache_def split: prod.splits option.splits)

lemma readDefaultSettingsFromCache_state:
  "snd (readDefaultSettingsFromCache a d username databaseID) =
     snd (clearCacheIfStale a (usersTableVersion a) (roleOptionsTableVersion a) d)"
  by (simp add: readDefaultSettingsFromCache_def split: prod.splits)

lemma maybeWriteAuthInfoBackToCache_watermarks:
  "maybeWriteAuthInfoBackToCache a u r aInfo username = Inr (ok, a') \<Longrightarrow>
     watermarks a' = watermarks a"
  by (auto simp add: maybeWriteAuthInfoBackToCache_def watermarks_def Warningf_def
      split: if_splits sum.splits error.splits)

lemma maybeWriteDefaultSettingsBackToCache_watermarks:
  "maybeWriteDefaultSettingsBackToCache a d es = Inr (ok, a') \<Longrightarrow>
     watermarks a' = watermarks a"
  by (auto simp add: maybeWriteDefaultSettingsBackToCache_def watermarks_def Warningf_def
      split: if_splits sum.splits error.splits)

lemma applyOp_watermarks:
  assumes "applyOp op a = Inr a'"
  shows "watermarks a' = watermarks a \<or>
         (\<exists>u r d. suppliedVersions op a = Some (u, r, d) \<and> watermarks a' = (u, r, d) \<and>
            (usersTableVersion a < u \<or> roleOptionsTableVersion a < r \<or>
             dbRoleSettingsTableVersion a < d))"
proof (cases op)
  case (ReadAuthInfoFromCache u r username)
  then show ?thesis
    using assms clearCacheIfStale_watermarks [of a u r "dbRoleSettingsTableVersion a"]
    by (auto simp add: readAuthInfoFromCache_state split: if_splits)
next
  case (ReadDefaultSettingsFromCache d username databaseID)
  then show ?thesis
    using assms
      clearCacheIfStale_watermarks [of a "usersTableVersion a" "roleOptionsTableVersion a" d]
    by (auto simp add: readDefaultSettingsFromCache_state split: if_splits)
next
  case (MaybeWriteAuthInfoBackToCache u r aInfo username)
  then show ?thesis
    using assms by (auto split: sum.splits dest: maybeWriteAuthInfoBackToCache_watermarks)
next
  case (MaybeWriteDefaultSettingsBackToCache d es)
  then show ?thesis
    using assms by (auto split: sum.splits dest: maybeWriteDefaultSettingsBackToCache_watermarks)
next
  case (ClearCacheIfStale u r d)
  then show ?thesis
    using assms clearCacheIfStale_watermarks [of a u r d]
    by (auto split: if_splits)
qed

text \<open>
  C2 (as amended). The stored watermarks change in one place only, the clearing branch
  of \<^verbatim>\<open>clearCacheIfStale\<close>: every operation either leaves all three watermarks as they
  were or, when one of the versions it hands to \<^verbatim>\<open>clearCacheIfStale\<close> is strictly
  greater than the stored one, sets all three to the versions handed over. Hence the
  write-backs never change a watermark, \<^verbatim>\<open>readDefaultSettingsFromCache\<close> never lowers
  one, and no operation lowers a watermark when none of the versions it supplies is
  below the stored one. A watermark can drop only in a call in which another rises.
\<close>

theorem watermarks_change_only_by_clearing:
  assumes "applyOp op a = Inr a'"
  shows "(watermarks a' = watermarks a \<or>
          (\<exists>u r d. suppliedVersions op a = Some (u, r, d) \<and> watermarks a' = (u, r, d) \<and>
             (usersTableVersion a < u \<or> roleOptionsTableVersion a < r \<or>
              dbRoleSettingsTableVersion a < d)))
       \<and> (suppliedVersions op a = None \<longrightarrow> watermarks a' = watermarks a)
       \<and> (\<forall>u r d. suppliedVersions op a = Some (u, r, d) \<and> usersTableVersion a \<le> u \<and>
              roleOptionsTableVersion a \<le> r \<and> dbRoleSettingsTableVersion a \<le> d \<longrightarrow>
            usersTableVersion a \<le> usersTableVersion a' \<and>
            roleOptionsTableVersion a \<le> roleOptionsTableVersion a' \<and>
            dbRoleSettingsTableVersion a \<le> dbRoleSettingsTableVersion a')
       \<and> (\<forall>d username databaseID. op = ReadDefaultSettingsFromCache d username databaseID \<longrightarrow>
            usersTableVersion a' = usersTableVersion a \<and>
            roleOptionsTableVersion a' = roleOptionsTableVersion a \<and>
            dbRoleSettingsTableVersion a \<le> dbRoleSettingsTableVersion a')"
proof -
  note step = applyOp_watermarks [OF assms]
  have none: "suppliedVersions op a = None \<longrightarrow> watermarks a' = watermarks a"
    using step by auto
  have ge: "\<forall>u r d. suppliedVersions op a = Some (u, r, d) \<and> usersTableVersion a \<le> u \<and>
              roleOptionsTableVersion a \<le> r \<and> dbRoleSettingsTableVersion a \<le> d \<longrightarrow>
            usersTableVersion a \<le> usersTableVersion a' \<and>
            roleOptionsTableVersion a \<le> roleOptionsTableVersion a' \<and>
            dbRoleSettingsTableVersion a \<le> dbRoleSettingsTableVersion a'"
    using step by (auto simp add: watermarks_def)
  have sett: "\<forall>d username databaseID. op = ReadDefaultSettingsFromCache d username databaseID \<longrightarrow>
            usersTableVersion a' = usersTableVersion a \<and>
            roleOptionsTableVersion a' = roleOptionsTableVersion a \<and>
            dbRoleSettingsTableVersion a \<le> dbRoleSettingsTableVersion a'"
    using step by (auto simp add: watermarks_def)
  show ?thesis using step none ge sett by blast
qed

theorem watermarks_change_only_by_clearing_witness:
  "applyOp (ReadAuthInfoFromCache 6 1 ''alice'') cache51 = Inr (cache51\<lparr>usersTableVersion := 6\<rparr>)
   \<and> suppliedVersions (ReadAuthInfoFromCache 6 1 ''alice'') cache51 = Some (6, 1, 0)
   \<and> watermarks cache51 = (5, 1, 0)
   \<and> watermarks (cache51\<lparr>usersTableVersion := 6\<rparr>) = (6, 1, 0)
   \<and> applyOp (MaybeWriteAuthInfoBackToCache 5 1 alice ''alice'') cache51 =
       Inr (cache51\<lparr>boundAccount := \<lparr>used = 78, budget = 4096\<rparr>,
                     authInfoCache := Some [''alice'' \<mapsto> alice]\<rparr>)
   \<and> suppliedVersions (MaybeWriteAuthInfoBackToCache 5 1 alice ''alice'') cache51 = None
   \<and> watermarks (cache51\<lparr>boundAccount := \<lparr>used = 78, budget = 4096\<rparr>,
                     authInfoCache := Some [''alice'' \<mapsto> alice]\<rparr>) = watermarks cache51
   \<and> applyOp (ReadDefaultSettingsFromCache 4 ''bob'' 7) cache51 =
       Inr (cache51\<lparr>dbRoleSettingsTableVersion := 4\<rparr>)
   \<and> dbRoleSettingsTableVersion cache51 \<le> dbRoleSettingsTableVersion (cache51\<lparr>dbRoleSettingsTableVersion := 4\<rparr>)"
proof -
  have e1: "applyOp (ReadAuthInfoFromCache 6 1 ''alice'') cache51 = Inr (cache51\<lparr>usersTableVersion := 6\<rparr>)"
    by (simp add: cache51_eq readAuthInfoFromCache_state clearCacheIfStale_def make_map_def Empty_def exampleAccount_def)
  have e2: "applyOp (MaybeWriteAuthInfoBackToCache 5 1 alice ''alice'') cache51 =
       Inr (cache51\<lparr>boundAccount := \<lparr>used = 78, budget = 4096\<rparr>,
                     authInfoCache := Some [''alice'' \<mapsto> alice]\<rparr>)"
    by (simp add: cache51_eq maybeWriteAuthInfoBackToCache_def Grow_def exampleAccount_def
        authInfoSizeOfEntry_def alice_def sizeOfUsername_def sizeOfAuthInfo_def
        sizeOfTimestamp_def map_assign_def)
  have e3: "applyOp (ReadDefaultSettingsFromCache 4 ''bob'' 7) cache51 =
       Inr (cache51\<lparr>dbRoleSettingsTableVersion := 4\<rparr>)"
    by (simp add: cache51_eq readDefaultSettingsFromCache_state clearCacheIfStale_def make_map_def Empty_def exampleAccount_def)
  have w: "watermarks cache51 = (5, 1, 0)" "watermarks (cache51\<lparr>usersTableVersion := 6\<rparr>) = (6, 1, 0)"
    by (simp_all add: cache51_eq watermarks_def)
  have s: "suppliedVersions (ReadAuthInfoFromCache 6 1 ''alice'') cache51 = Some (6, 1, 0)"
    "suppliedVersions (MaybeWriteAuthInfoBackToCache 5 1 alice ''alice'') cache51 = None"
    by (simp_all add: cache51_eq)
  have l: "dbRoleSettingsTableVersion cache51 \<le> dbRoleSettingsTableVersion (cache51\<lparr>dbRoleSettingsTableVersion := 4\<rparr>)"
    using watermarks_change_only_by_clearing [OF e3] by blast
  have k: "usersTableVersion cache51 \<le> usersTableVersion (cache51\<lparr>usersTableVersion := 6\<rparr>)"
    using watermarks_change_only_by_clearing [OF e1] s(1) by (simp add: cache51_eq)
  have m: "watermarks (cache51\<lparr>boundAccount := \<lparr>used = 78, budget = 4096\<rparr>,
                     authInfoCache := Some [''alice'' \<mapsto> alice]\<rparr>) = watermarks cache51"
    using watermarks_change_only_by_clearing [OF e2] s(2) by blast
  show ?thesis using e1 e2 e3 w s l k m by blast
qed

text \<open>
  C2 as stated fails: a lookup at versions (5, 1) on a fresh cache leads to
  \<open>cache51\<close>; a following lookup at versions (3, 2) lowers the users watermark from 5
  to 3.
\<close>

theorem watermark_lowered_counterexample:
  "runOps (NewCache exampleAccount) [ReadAuthInfoFromCache 5 1 ''alice''] = Inr cache51
   \<and> applyOp (ReadAuthInfoFromCache 3 2 ''alice'') cache51 =
       Inr (snd (readAuthInfoFromCache cache51 3 2 ''alice''))
   \<and> usersTableVersion (snd (readAuthInfoFromCache cache51 3 2 ''alice''))
       < usersTableVersion cache51"
  by (simp add: cache51_def clearCacheIfStale_def NewCache_def readAuthInfoFromCache_def
      map_index_def make_map_def)

subsection \<open>Write-back\<close>

lemma Warningf_fields:
  "usersTableVersion (Warningf msg err a) = usersTableVersion a"
  "roleOptionsTableVersion (Warningf msg err a) = roleOptionsTableVersion a"
  "dbRoleSettingsTableVersion (Warningf msg err a) = dbRoleSettingsTableVersion a"
  "boundAccount (Warningf msg err a) = boundAccount a"
  "authInfoCache (Warningf msg err a) = authInfoCache a"
  "settingsCache (Warningf msg err a) = settingsCache a"
  by (simp_all add: Warningf_def split: error.splits)

lemma Warningf_opsLog:
  "opsLog (Warningf msg (Error e) a) = (msg @ '': '' @ e) # opsLog a"
  by (simp add: Warningf_def)

lemma GetAuthInfo_miss:
  assumes "GetImmutableTableByName descriptors UsersTableName =
             Inr \<lparr>GetVersion = u, IsUncommittedVersion = False\<rparr>"
      and "GetImmutableTableByName descriptors RoleOptionsTableName =
             Inr \<lparr>GetVersion = r, IsUncommittedVersion = False\<rparr>"
      and "\<not> snd (fst (readAuthInfoFromCache a u r username))"
      and "readAuth username = (fetched, None)"
  shows "GetAuthInfo a True descriptors username readAuth None interleaved =
           (case maybeWriteAuthInfoBackToCache
                   (interleaved (snd (readAuthInfoFromCache a u r username))) u r fetched
                   username of
              Inl p \<Rightarrow> Inl p
            | Inr (ok, a2) \<Rightarrow> Inr ((fetched, None), a2))"
  using assms
  by (cases "readAuthInfoFromCache a u r username")
    (auto simp add: GetAuthInfo_def loadCacheValue_def)

lemma GetDefaultSettings_miss:
  assumes "GetImmutableTableByName descriptors DatabaseRoleSettingsTableName =
             Inr \<lparr>GetVersion = d, IsUncommittedVersion = False\<rparr>"
      and "resolveDatabaseID descriptors databaseName = Inr databaseID"
      and "\<not> snd (fst (readDefaultSettingsFromCache a d username databaseID))"
      and "readSettings username databaseID = (fetched, None)"
  shows "GetDefaultSettings a True descriptors username databaseName readSettings None
           interleaved =
           (case maybeWriteDefaultSettingsBackToCache
                   (interleaved (snd (readDefaultSettingsFromCache a d username databaseID)))
                   d fetched of
              Inl p \<Rightarrow> Inl p
            | Inr (ok, a2) \<Rightarrow> Inr ((fetched, None), a2))"
  using assms
  by (cases "readDefaultSettingsFromCache a d username databaseID")
    (auto simp add: GetDefaultSettings_def loadCacheValue_def)

lemma cacheTight_eq:
  "cacheTight = \<lparr>usersTableVersion = 5, roleOptionsTableVersion = 1,
      dbRoleSettingsTableVersion = 0, boundAccount = \<lparr>used = 0, budget = 0\<rparr>,
      authInfoCache = Some Map.empty, settingsCache = Some Map.empty, opsLog = []\<rparr>"
  by (simp add: cacheTight_def clearCacheIfStale_def NewCache_def make_map_def Empty_def)

lemma lookupAt61_cache51: "lookupAt61 cache51 = cache51\<lparr>usersTableVersion := 6\<rparr>"
  by (simp add: lookupAt61_def cache51_eq readAuthInfoFromCache_state clearCacheIfStale_def
      make_map_def Empty_def exampleAccount_def)

lemma lookupAt1_cache51: "lookupAt1 cache51 = cache51\<lparr>dbRoleSettingsTableVersion := 1\<rparr>"
  by (simp add: lookupAt1_def cache51_eq readDefaultSettingsFromCache_state
      clearCacheIfStale_def make_map_def Empty_def exampleAccount_def)

lemma read_alice_cache51:
  "readAuthInfoFromCache cache51 5 1 ''alice'' = ((zeroAuthInfo, False), cache51)"
  by (simp add: cache51_eq readAuthInfoFromCache_def clearCacheIfStale_def map_index_def)

lemma read_bob_cache51:
  "readDefaultSettingsFromCache cache51 0 ''bob'' 7 = (([], False), cache51)"
  by (simp add: cache51_eq readDefaultSettingsFromCache_def clearCacheIfStale_def
      map_index_def GenerateSettingsCacheKeys_def)

lemma read_alice_cacheTight:
  "readAuthInfoFromCache cacheTight 5 1 ''alice'' = ((zeroAuthInfo, False), cacheTight)"
  by (simp add: cacheTight_eq readAuthInfoFromCache_def clearCacheIfStale_def map_index_def)

lemma read_bob_cacheTight:
  "readDefaultSettingsFromCache cacheTight 0 ''bob'' 7 = (([], False), cacheTight)"
  by (simp add: cacheTight_eq readDefaultSettingsFromCache_def clearCacheIfStale_def
      map_index_def GenerateSettingsCacheKeys_def)

lemma grow_alice_cacheTight:
  "Grow (boundAccount cacheTight) (authInfoSizeOfEntry alice ''alice'') =
     Inl (Error ''memory budget exceeded'')"
  by (simp add: cacheTight_eq Grow_def authInfoSizeOfEntry_def alice_def sizeOfUsername_def
      sizeOfAuthInfo_def sizeOfTimestamp_def)

lemma size_bob_empty: "sizeOfSettings (Some Map.empty) bobSettings 0 = 228"
  by (simp add: bobSettings_def map_index_def settingsEntrySize_def
      sizeOfSettingsCacheEntry_def)

lemma grow_bob_cacheTight:
  "Grow (boundAccount cacheTight) (sizeOfSettings (settingsCache cacheTight) bobSettings 0) =
     Inl (Error ''memory budget exceeded'')"
  by (simp add: cacheTight_eq Grow_def size_bob_empty)

text \<open>
  C4. A write-back whose versions no longer equal the stored watermarks (either of the
  two for authentication info, the one for settings) returns the state exactly as it
  was, so the fetched value is not installed. \<^verbatim>\<open>GetAuthInfo\<close> and
  \<^verbatim>\<open>GetDefaultSettings\<close>, after a miss and a successful fetch, still return the fetched
  value with no error when the watermark moved while the fetch was in flight, and the
  cache they leave is the one the other goroutines produced.
\<close>

theorem stale_write_back_is_discarded:
  "(usersTableVersion a \<noteq> u \<or> roleOptionsTableVersion a \<noteq> r \<longrightarrow>
      maybeWriteAuthInfoBackToCache a u r aInfo username = Inr (False, a))
   \<and> (dbRoleSettingsTableVersion a \<noteq> d \<longrightarrow>
      maybeWriteDefaultSettingsBackToCache a d settingsEntries = Inr (False, a))
   \<and> (GetImmutableTableByName descriptors UsersTableName =
         Inr \<lparr>GetVersion = u, IsUncommittedVersion = False\<rparr>
      \<and> GetImmutableTableByName descriptors RoleOptionsTableName =
         Inr \<lparr>GetVersion = r, IsUncommittedVersion = False\<rparr>
      \<and> \<not> snd (fst (readAuthInfoFromCache a0 u r username))
      \<and> readAuth username = (fetched, None)
      \<and> (usersTableVersion (interleaved (snd (readAuthInfoFromCache a0 u r username))) \<noteq> u
         \<or> roleOptionsTableVersion (interleaved (snd (readAuthInfoFromCache a0 u r username)))
             \<noteq> r)
      \<longrightarrow> GetAuthInfo a0 True descriptors username readAuth None interleaved =
            Inr ((fetched, None), interleaved (snd (readAuthInfoFromCache a0 u r username))))
   \<and> (GetImmutableTableByName descriptors DatabaseRoleSettingsTableName =
         Inr \<lparr>GetVersion = d, IsUncommittedVersion = False\<rparr>
      \<and> resolveDatabaseID descriptors databaseName = Inr databaseID
      \<and> \<not> snd (fst (readDefaultSettingsFromCache a0 d username databaseID))
      \<and> readSettings username databaseID = (fetchedSettings, None)
      \<and> dbRoleSettingsTableVersion
           (interleaved (snd (readDefaultSettingsFromCache a0 d username databaseID))) \<noteq> d
      \<longrightarrow> GetDefaultSettings a0 True descriptors username databaseName readSettings None
              interleaved =
            Inr ((fetchedSettings, None),
                 interleaved (snd (readDefaultSettingsFromCache a0 d username databaseID))))"
proof -
  have authw: "maybeWriteAuthInfoBackToCache b u r ai username = Inr (False, b)"
    if "usersTableVersion b \<noteq> u \<or> roleOptionsTableVersion b \<noteq> r" for b ai
    using that by (auto simp add: maybeWriteAuthInfoBackToCache_def)
  have settw: "maybeWriteDefaultSettingsBackToCache b d es = Inr (False, b)"
    if "dbRoleSettingsTableVersion b \<noteq> d" for b es
    using that by (simp add: maybeWriteDefaultSettingsBackToCache_def)
  show ?thesis
    by (intro conjI impI; (elim conjE)?)
      (simp_all add: authw settw GetAuthInfo_miss GetDefaultSettings_miss)
qed

theorem stale_write_back_is_discarded_witness:
  "usersTableVersion (lookupAt61 cache51) = 6
   \<and> maybeWriteAuthInfoBackToCache (lookupAt61 cache51) 5 1 alice ''alice'' =
       Inr (False, lookupAt61 cache51)
   \<and> GetAuthInfo cache51 True (committedAt 5 1 0) ''alice'' readAlice None lookupAt61 =
       Inr ((alice, None), lookupAt61 cache51)
   \<and> map_index (authInfoCache (lookupAt61 cache51)) ''alice'' = None
   \<and> dbRoleSettingsTableVersion (lookupAt1 cache51) = 1
   \<and> maybeWriteDefaultSettingsBackToCache (lookupAt1 cache51) 0 bobSettings =
       Inr (False, lookupAt1 cache51)
   \<and> GetDefaultSettings cache51 True (committedAt 5 1 0) ''bob'' ''defaultdb'' readBob None
         lookupAt1 = Inr ((bobSettings, None), lookupAt1 cache51)
   \<and> map_index (settingsCache (lookupAt1 cache51)) \<lparr>DatabaseID = 7, Username = ''bob''\<rparr> = None"
proof -
  have v: "usersTableVersion (lookupAt61 cache51) = 6"
    "dbRoleSettingsTableVersion (lookupAt1 cache51) = 1"
    by (simp_all add: lookupAt61_cache51 lookupAt1_cache51)
  have absent: "map_index (authInfoCache (lookupAt61 cache51)) ''alice'' = None"
    "map_index (settingsCache (lookupAt1 cache51)) \<lparr>DatabaseID = 7, Username = ''bob''\<rparr> = None"
    unfolding lookupAt61_cache51 lookupAt1_cache51
    by (simp_all add: cache51_eq map_index_def)
  note inst = stale_write_back_is_discarded [where a = "lookupAt61 cache51" and u = 5 and r = 1
      and aInfo = alice and username = "''alice''" and descriptors = "committedAt 5 1 0"
      and a0 = cache51 and readAuth = readAlice and fetched = alice
      and interleaved = lookupAt61]
  note inst' = stale_write_back_is_discarded [where a = "lookupAt1 cache51" and d = 0
      and settingsEntries = bobSettings and username = "''bob''"
      and descriptors = "committedAt 5 1 0" and databaseName = "''defaultdb''"
      and databaseID = 7 and a0 = cache51 and readSettings = readBob
      and fetchedSettings = bobSettings and interleaved = lookupAt1]
  show ?thesis
    using v absent inst inst'
    by (simp add: committedAt_tables committedAt_defaultdb read_alice_cache51
        read_bob_cache51 readAlice_def readBob_def)
qed

text \<open>
  C5. When the version recheck passes and \<^verbatim>\<open>Grow\<close> fails, the write-back inserts
  nothing: both mappings and the account are as before, and the only change is one
  warning added to the log. The public operation then returns the fetched value with no
  error.
\<close>

theorem over_budget_write_back_warns:
  "(usersTableVersion a = u \<and> roleOptionsTableVersion a = r
      \<and> Grow (boundAccount a) (authInfoSizeOfEntry aInfo username) = Inl err \<longrightarrow>
      maybeWriteAuthInfoBackToCache a u r aInfo username =
        Inr (True, Warningf noMemoryMsg err a))
   \<and> (dbRoleSettingsTableVersion a = d
      \<and> Grow (boundAccount a) (sizeOfSettings (settingsCache a) settingsEntries 0) = Inl err
      \<longrightarrow> maybeWriteDefaultSettingsBackToCache a d settingsEntries =
            Inr (True, Warningf noMemoryMsg err a))
   \<and> authInfoCache (Warningf noMemoryMsg err a) = authInfoCache a
   \<and> settingsCache (Warningf noMemoryMsg err a) = settingsCache a
   \<and> boundAccount (Warningf noMemoryMsg err a) = boundAccount a
   \<and> opsLog (Warningf noMemoryMsg (Error e) a) = (noMemoryMsg @ '': '' @ e) # opsLog a
   \<and> (GetImmutableTableByName descriptors UsersTableName =
         Inr \<lparr>GetVersion = u, IsUncommittedVersion = False\<rparr>
      \<and> GetImmutableTableByName descriptors RoleOptionsTableName =
         Inr \<lparr>GetVersion = r, IsUncommittedVersion = False\<rparr>
      \<and> \<not> snd (fst (readAuthInfoFromCache a0 u r username))
      \<and> readAuth username = (fetched, None)
      \<and> usersTableVersion (interleaved (snd (readAuthInfoFromCache a0 u r username))) = u
      \<and> roleOptionsTableVersion (interleaved (snd (readAuthInfoFromCache a0 u r username))) = r
      \<and> Grow (boundAccount (interleaved (snd (readAuthInfoFromCache a0 u r username))))
           (authInfoSizeOfEntry fetched username) = Inl err
      \<longrightarrow> GetAuthInfo a0 True descriptors username readAuth None interleaved =
            Inr ((fetched, None),
                 Warningf noMemoryMsg err
                   (interleaved (snd (readAuthInfoFromCache a0 u r username)))))
   \<and> (GetImmutableTableByName descriptors DatabaseRoleSettingsTableName =
         Inr \<lparr>GetVersion = d, IsUncommittedVersion = False\<rparr>
      \<and> resolveDatabaseID descriptors databaseName = Inr databaseID
      \<and> \<not> snd (fst (readDefaultSettingsFromCache a0 d username databaseID))
      \<and> readSettings username databaseID = (fetchedSettings, None)
      \<and> dbRoleSettingsTableVersion
           (interleaved (snd (readDefaultSettingsFromCache a0 d username databaseID))) = d
      \<and> Grow (boundAccount
                 (interleaved (snd (readDefaultSettingsFromCache a0 d username databaseID))))
           (sizeOfSettings
              (settingsCache
                 (interleaved (snd (readDefaultSettingsFromCache a0 d username databaseID))))
              fetchedSettings 0) = Inl err
      \<longrightarrow> GetDefaultSettings a0 True descriptors username databaseName readSettings None
              interleaved =
            Inr ((fetchedSettings, None),
                 Warningf noMemoryMsg err
                   (interleaved (snd (readDefaultSettingsFromCache a0 d username databaseID)))))"
proof -
  have authw: "maybeWriteAuthInfoBackToCache b u r ai username =
                 Inr (True, Warningf noMemoryMsg err b)"
    if "usersTableVersion b = u" "roleOptionsTableVersion b = r"
       "Grow (boundAccount b) (authInfoSizeOfEntry ai username) = Inl err" for b ai
    using that by (simp add: maybeWriteAuthInfoBackToCache_def)
  have settw: "maybeWriteDefaultSettingsBackToCache b d es =
                 Inr (True, Warningf noMemoryMsg err b)"
    if "dbRoleSettingsTableVersion b = d"
       "Grow (boundAccount b) (sizeOfSettings (settingsCache b) es 0) = Inl err" for b es
    using that by (simp add: maybeWriteDefaultSettingsBackToCache_def)
  show ?thesis
    by (intro conjI impI; (elim conjE)?)
      (simp_all add: authw settw GetAuthInfo_miss GetDefaultSettings_miss Warningf_fields
        Warningf_opsLog)
qed

theorem over_budget_write_back_warns_witness:
  "Grow (boundAccount cacheTight) (authInfoSizeOfEntry alice ''alice'') =
     Inl (Error ''memory budget exceeded'')
   \<and> maybeWriteAuthInfoBackToCache cacheTight 5 1 alice ''alice'' =
       Inr (True, Warningf noMemoryMsg (Error ''memory budget exceeded'') cacheTight)
   \<and> GetAuthInfo cacheTight True (committedAt 5 1 0) ''alice'' readAlice None (\<lambda>c. c) =
       Inr ((alice, None), Warningf noMemoryMsg (Error ''memory budget exceeded'') cacheTight)
   \<and> maybeWriteDefaultSettingsBackToCache cacheTight 0 bobSettings =
       Inr (True, Warningf noMemoryMsg (Error ''memory budget exceeded'') cacheTight)
   \<and> GetDefaultSettings cacheTight True (committedAt 5 1 0) ''bob'' ''defaultdb'' readBob None
         (\<lambda>c. c) =
       Inr ((bobSettings, None),
            Warningf noMemoryMsg (Error ''memory budget exceeded'') cacheTight)
   \<and> map_index (authInfoCache (Warningf noMemoryMsg (Error ''memory budget exceeded'')
         cacheTight)) ''alice'' = None
   \<and> opsLog (Warningf noMemoryMsg (Error ''memory budget exceeded'') cacheTight) =
       [''no memory available to cache authentication info: memory budget exceeded'']"
proof -
  have v: "usersTableVersion cacheTight = 5" "roleOptionsTableVersion cacheTight = 1"
    "dbRoleSettingsTableVersion cacheTight = 0" "opsLog cacheTight = []"
    "map_index (authInfoCache cacheTight) ''alice'' = None"
    by (simp_all add: cacheTight_eq map_index_def)
  note inst = over_budget_write_back_warns [where a = cacheTight and u = 5 and r = 1
      and d = 0 and aInfo = alice and username = "''alice''"
      and err = "Error ''memory budget exceeded''" and e = "''memory budget exceeded''"
      and descriptors = "committedAt 5 1 0" and a0 = cacheTight and readAuth = readAlice
      and fetched = alice and interleaved = "\<lambda>c. c"]
  note inst' = over_budget_write_back_warns [where a = cacheTight and d = 0
      and settingsEntries = bobSettings and username = "''bob''"
      and err = "Error ''memory budget exceeded''"
      and descriptors = "committedAt 5 1 0" and databaseName = "''defaultdb''"
      and databaseID = 7 and a0 = cacheTight and readSettings = readBob
      and fetchedSettings = bobSettings and interleaved = "\<lambda>c. c"]
  show ?thesis
    using v inst inst'
    by (simp add: committedAt_tables committedAt_defaultdb read_alice_cacheTight
        read_bob_cacheTight readAlice_def readBob_def grow_alice_cacheTight
        grow_bob_cacheTight noMemoryMsg_def)
qed

subsection \<open>All-or-nothing settings lookup\<close>

lemma collectSettings_found:
  "snd (collectSettings m ks sEntries) \<longleftrightarrow> (\<forall>k\<in>set ks. map_index m k \<noteq> None)"
  by (induction ks arbitrary: sEntries) (auto split: option.splits)

lemma collectSettings_entries:
  "snd (collectSettings m ks sEntries) \<Longrightarrow>
     fst (collectSettings m ks sEntries) =
       sEntries @ map (\<lambda>k. \<lparr>SettingsCacheKey = k, Settings = the (map_index m k)\<rparr>) ks"
  by (induction ks arbitrary: sEntries) (auto split: option.splits)

lemma readDefaultSettingsFromCache_result:
  "fst (readDefaultSettingsFromCache a d username databaseID) =
     (if fst (clearCacheIfStale a (usersTableVersion a) (roleOptionsTableVersion a) d)
      then collectSettings
             (settingsCache (snd (readDefaultSettingsFromCache a d username databaseID)))
             (GenerateSettingsCacheKeys databaseID username) []
      else ([], False))"
  by (simp add: readDefaultSettingsFromCache_def split: prod.splits)

lemma cacheBob3_eq:
  "cacheBob3 = \<lparr>usersTableVersion = 5, roleOptionsTableVersion = 1,
      dbRoleSettingsTableVersion = 0, boundAccount = \<lparr>used = 0, budget = 4096\<rparr>,
      authInfoCache = Some Map.empty,
      settingsCache =
        Some [\<lparr>DatabaseID = 7, Username = ''bob''\<rparr> \<mapsto> [''timezone=utc''],
              \<lparr>DatabaseID = 7, Username = []\<rparr> \<mapsto> [''search_path=public''],
              \<lparr>DatabaseID = 0, Username = []\<rparr> \<mapsto> []],
      opsLog = []\<rparr>"
  by (simp add: cacheBob3_def cache51_eq exampleAccount_def)

lemma cacheBob4_eq:
  "cacheBob4 = \<lparr>usersTableVersion = 5, roleOptionsTableVersion = 1,
      dbRoleSettingsTableVersion = 0, boundAccount = \<lparr>used = 51, budget = 4096\<rparr>,
      authInfoCache = Some Map.empty,
      settingsCache =
        Some [\<lparr>DatabaseID = 7, Username = ''bob''\<rparr> \<mapsto> [''timezone=utc''],
              \<lparr>DatabaseID = 7, Username = []\<rparr> \<mapsto> [''search_path=public''],
              \<lparr>DatabaseID = 0, Username = []\<rparr> \<mapsto> [],
              \<lparr>DatabaseID = 0, Username = ''bob''\<rparr> \<mapsto> []],
      opsLog = []\<rparr>"
  by (simp add: cacheBob4_def cacheBob3_eq)

lemma read_bob_cacheBob3:
  "readDefaultSettingsFromCache cacheBob3 0 ''bob'' 7 =
     (([\<lparr>SettingsCacheKey = \<lparr>DatabaseID = 7, Username = ''bob''\<rparr>,
         Settings = [''timezone=utc'']\<rparr>], False), cacheBob3)"
  by (simp add: cacheBob3_eq readDefaultSettingsFromCache_def clearCacheIfStale_def
      map_index_def GenerateSettingsCacheKeys_def defaultDatabaseID_def defaultUsername_def)

lemma read_bob_cacheBob4:
  "readDefaultSettingsFromCache cacheBob4 0 ''bob'' 7 =
     (([\<lparr>SettingsCacheKey = \<lparr>DatabaseID = 7, Username = ''bob''\<rparr>,
         Settings = [''timezone=utc'']\<rparr>,
        \<lparr>SettingsCacheKey = \<lparr>DatabaseID = 0, Username = ''bob''\<rparr>, Settings = []\<rparr>,
        \<lparr>SettingsCacheKey = \<lparr>DatabaseID = 7, Username = []\<rparr>,
         Settings = [''search_path=public'']\<rparr>,
        \<lparr>SettingsCacheKey = \<lparr>DatabaseID = 0, Username = []\<rparr>, Settings = []\<rparr>], True),
      cacheBob4)"
  by (simp add: cacheBob4_eq readDefaultSettingsFromCache_def clearCacheIfStale_def
      map_index_def GenerateSettingsCacheKeys_def defaultDatabaseID_def defaultUsername_def)

lemma size_bob_cacheBob3: "sizeOfSettings (settingsCache cacheBob3) bobSettings 0 = 51"
  by (simp add: cacheBob3_eq bobSettings_def map_index_def settingsEntrySize_def
      sizeOfSettingsCacheEntry_def)

lemma size_bob_cacheBob4: "sizeOfSettings (settingsCache cacheBob4) bobSettings 0 = 0"
  by (simp add: cacheBob4_eq bobSettings_def map_index_def)

lemma store_bob_cacheBob3:
  "storeSettings (settingsCache cacheBob3) bobSettings = Inr (settingsCache cacheBob4)"
  by (simp add: cacheBob3_eq cacheBob4_eq bobSettings_def map_index_def map_assign_def)

lemma store_bob_cacheBob4:
  "storeSettings (settingsCache cacheBob4) bobSettings = Inr (settingsCache cacheBob4)"
  by (simp add: cacheBob4_eq bobSettings_def map_index_def)

lemma write_bob_cacheBob3:
  "maybeWriteDefaultSettingsBackToCache cacheBob3 0 bobSettings = Inr (True, cacheBob4)"
  by (simp add: maybeWriteDefaultSettingsBackToCache_def size_bob_cacheBob3
      store_bob_cacheBob3 Grow_def)
    (simp add: cacheBob3_eq cacheBob4_eq)

lemma write_bob_cacheBob4:
  "maybeWriteDefaultSettingsBackToCache cacheBob4 0 bobSettings = Inr (True, cacheBob4)"
  by (simp add: maybeWriteDefaultSettingsBackToCache_def size_bob_cacheBob4
      store_bob_cacheBob4 Grow_def)
    (simp add: cacheBob4_eq)

text \<open>
  C6. \<^verbatim>\<open>readDefaultSettingsFromCache\<close> reports a hit exactly when the cache is eligible
  and every one of the four precedence keys of (database, user) is present in the
  settings cache; a hit returns the four entries in precedence order. If any key is
  absent the lookup reports a miss, and \<^verbatim>\<open>GetDefaultSettings\<close> fetches through the
  reader and returns the complete fetched list, never the entries found before the
  missing key. With three of the four keys cached the lookup is a miss.
\<close>

theorem settings_hit_needs_all_four_keys:
  "(snd (fst (readDefaultSettingsFromCache a d username databaseID)) \<longleftrightarrow>
      fst (clearCacheIfStale a (usersTableVersion a) (roleOptionsTableVersion a) d) \<and>
      (\<forall>k\<in>set (GenerateSettingsCacheKeys databaseID username).
         map_index (settingsCache (snd (readDefaultSettingsFromCache a d username databaseID)))
           k \<noteq> None))
   \<and> (snd (fst (readDefaultSettingsFromCache a d username databaseID)) \<longrightarrow>
        fst (fst (readDefaultSettingsFromCache a d username databaseID)) =
          map (\<lambda>k. \<lparr>SettingsCacheKey = k,
                     Settings = the (map_index (settingsCache
                       (snd (readDefaultSettingsFromCache a d username databaseID))) k)\<rparr>)
            (GenerateSettingsCacheKeys databaseID username))
   \<and> (GetImmutableTableByName descriptors DatabaseRoleSettingsTableName =
         Inr \<lparr>GetVersion = d, IsUncommittedVersion = False\<rparr>
      \<and> resolveDatabaseID descriptors databaseName = Inr databaseID
      \<and> (\<exists>k\<in>set (GenerateSettingsCacheKeys databaseID username).
           map_index (settingsCache (snd (readDefaultSettingsFromCache a d username databaseID)))
             k = None)
      \<and> readSettings username databaseID = (fetched, None)
      \<longrightarrow> GetDefaultSettings a True descriptors username databaseName readSettings None
              interleaved =
            (case maybeWriteDefaultSettingsBackToCache
                    (interleaved (snd (readDefaultSettingsFromCache a d username databaseID)))
                    d fetched of
               Inl p \<Rightarrow> Inl p
             | Inr (ok, a2) \<Rightarrow> Inr ((fetched, None), a2)))"
proof -
  let ?res = "readDefaultSettingsFromCache a d username databaseID"
  let ?keys = "GenerateSettingsCacheKeys databaseID username"
  have found: "snd (fst ?res) \<longleftrightarrow>
      fst (clearCacheIfStale a (usersTableVersion a) (roleOptionsTableVersion a) d) \<and>
      (\<forall>k\<in>set ?keys. map_index (settingsCache (snd ?res)) k \<noteq> None)"
    by (simp add: readDefaultSettingsFromCache_result collectSettings_found)
  have entries: "fst (fst ?res) =
          map (\<lambda>k. \<lparr>SettingsCacheKey = k,
                     Settings = the (map_index (settingsCache (snd ?res)) k)\<rparr>) ?keys"
    if "snd (fst ?res)"
  proof -
    from that have elig: "fst (clearCacheIfStale a (usersTableVersion a)
        (roleOptionsTableVersion a) d)"
      using found by blast
    with that have "snd (collectSettings (settingsCache (snd ?res)) ?keys [])"
      by (simp add: readDefaultSettingsFromCache_result)
    from collectSettings_entries [OF this] elig show ?thesis
      by (simp add: readDefaultSettingsFromCache_result)
  qed
  have miss: "\<not> snd (fst ?res)"
    if "\<exists>k\<in>set ?keys. map_index (settingsCache (snd ?res)) k = None"
    using that found by blast
  show ?thesis
    using found entries miss GetDefaultSettings_miss [of descriptors d databaseName databaseID
        a username readSettings fetched interleaved]
    by blast
qed

theorem settings_hit_needs_all_four_keys_witness:
  "map_index (settingsCache cacheBob3) \<lparr>DatabaseID = 7, Username = ''bob''\<rparr> = Some [''timezone=utc'']
   \<and> map_index (settingsCache cacheBob3) \<lparr>DatabaseID = 0, Username = ''bob''\<rparr> = None
   \<and> map_index (settingsCache cacheBob3) \<lparr>DatabaseID = 7, Username = []\<rparr> = Some [''search_path=public'']
   \<and> map_index (settingsCache cacheBob3) \<lparr>DatabaseID = 0, Username = []\<rparr> = Some []
   \<and> snd (fst (readDefaultSettingsFromCache cacheBob3 0 ''bob'' 7)) = False
   \<and> GetDefaultSettings cacheBob3 True (committedAt 5 1 0) ''bob'' ''defaultdb'' readBob None
         (\<lambda>c. c) = Inr ((bobSettings, None), cacheBob4)
   \<and> snd (fst (readDefaultSettingsFromCache cacheBob4 0 ''bob'' 7)) = True
   \<and> fst (fst (readDefaultSettingsFromCache cacheBob4 0 ''bob'' 7)) = bobSettings"
proof -
  have keys: "map_index (settingsCache cacheBob3) \<lparr>DatabaseID = 7, Username = ''bob''\<rparr> = Some [''timezone=utc'']"
    "map_index (settingsCache cacheBob3) \<lparr>DatabaseID = 0, Username = ''bob''\<rparr> = None"
    "map_index (settingsCache cacheBob3) \<lparr>DatabaseID = 7, Username = []\<rparr> = Some [''search_path=public'']"
    "map_index (settingsCache cacheBob3) \<lparr>DatabaseID = 0, Username = []\<rparr> = Some []"
    by (simp_all add: cacheBob3_eq map_index_def)
  note miss = settings_hit_needs_all_four_keys [where a = cacheBob3 and d = 0
      and username = "''bob''" and databaseID = 7 and descriptors = "committedAt 5 1 0"
      and databaseName = "''defaultdb''" and readSettings = readBob and fetched = bobSettings
      and interleaved = "\<lambda>c. c"]
  note hit = settings_hit_needs_all_four_keys [where a = cacheBob4 and d = 0
      and username = "''bob''" and databaseID = 7]
  have present: "\<forall>k\<in>set (GenerateSettingsCacheKeys 7 ''bob'').
      map_index (settingsCache cacheBob4) k \<noteq> None"
    by (simp add: GenerateSettingsCacheKeys_def defaultDatabaseID_def defaultUsername_def
        cacheBob4_eq map_index_def)
  have elig: "fst (clearCacheIfStale cacheBob4 (usersTableVersion cacheBob4)
      (roleOptionsTableVersion cacheBob4) 0)"
    by (simp add: cacheBob4_eq clearCacheIfStale_def)
  have absent: "\<exists>k\<in>set (GenerateSettingsCacheKeys 7 ''bob'').
      map_index (settingsCache cacheBob3) k = None"
    using keys(2)
    by (simp add: GenerateSettingsCacheKeys_def defaultDatabaseID_def defaultUsername_def)
  have s3: "snd (readDefaultSettingsFromCache cacheBob3 0 ''bob'' 7) = cacheBob3"
    and s4: "snd (readDefaultSettingsFromCache cacheBob4 0 ''bob'' 7) = cacheBob4"
    by (simp_all add: read_bob_cacheBob3 read_bob_cacheBob4)
  have w1: "snd (fst (readDefaultSettingsFromCache cacheBob3 0 ''bob'' 7)) = False"
    using miss absent s3 by auto
  have w2: "GetDefaultSettings cacheBob3 True (committedAt 5 1 0) ''bob'' ''defaultdb'' readBob
      None (\<lambda>c. c) = Inr ((bobSettings, None), cacheBob4)"
    using miss absent s3
    by (simp add: committedAt_tables committedAt_defaultdb readBob_def write_bob_cacheBob3)
  have w3: "snd (fst (readDefaultSettingsFromCache cacheBob4 0 ''bob'' 7)) = True"
    using hit present elig s4 by simp
  have w4: "fst (fst (readDefaultSettingsFromCache cacheBob4 0 ''bob'' 7)) = bobSettings"
    using hit w3 s4
    by (simp add: GenerateSettingsCacheKeys_def defaultDatabaseID_def defaultUsername_def
        cacheBob4_eq map_index_def bobSettings_def)
  show ?thesis using keys w1 w2 w3 w4 by simp
qed

subsection \<open>Charging the account for settings\<close>

lemma sizeOfSettings_sum:
  "sizeOfSettings m es n =
     n + sum_list (map settingsEntrySize
           (filter (\<lambda>e. map_index m (SettingsCacheKey e) = None) es))"
  by (induction es arbitrary: n) simp_all

lemma storeSettings_keeps:
  "storeSettings m es = Inr m' \<Longrightarrow> map_index m k \<noteq> None \<Longrightarrow> map_index m' k \<noteq> None"
proof (induction es arbitrary: m)
  case Nil
  then show ?case by simp
next
  case (Cons e es)
  show ?case
  proof (cases "map_index m (SettingsCacheKey e) = None")
    case True
    with Cons.prems(1) obtain m1 where
      m1: "map_assign m (SettingsCacheKey e) (Settings e) = Inr m1"
      and rest: "storeSettings m1 es = Inr m'"
      by (auto split: sum.splits)
    from m1 Cons.prems(2) have "map_index m1 k \<noteq> None"
      by (auto simp add: map_assign_def map_index_def split: option.splits)
    with Cons.IH [OF rest] show ?thesis .
  next
    case False
    with Cons.prems Cons.IH show ?thesis by simp
  qed
qed

lemma storeSettings_present:
  "storeSettings m es = Inr m' \<Longrightarrow> \<forall>e\<in>set es. map_index m' (SettingsCacheKey e) \<noteq> None"
proof (induction es arbitrary: m)
  case Nil
  then show ?case by simp
next
  case (Cons e es)
  show ?case
  proof (cases "map_index m (SettingsCacheKey e) = None")
    case True
    with Cons.prems obtain m1 where
      m1: "map_assign m (SettingsCacheKey e) (Settings e) = Inr m1"
      and rest: "storeSettings m1 es = Inr m'"
      by (auto split: sum.splits)
    from m1 have "map_index m1 (SettingsCacheKey e) \<noteq> None"
      by (auto simp add: map_assign_def map_index_def split: option.splits)
    with storeSettings_keeps [OF rest] have "map_index m' (SettingsCacheKey e) \<noteq> None" .
    with Cons.IH [OF rest] show ?thesis by simp
  next
    case False
    with Cons.prems have rest: "storeSettings m es = Inr m'" by simp
    from storeSettings_keeps [OF rest False] Cons.IH [OF rest] show ?thesis by simp
  qed
qed

lemma storeSettings_noop:
  "\<forall>e\<in>set es. map_index m (SettingsCacheKey e) \<noteq> None \<Longrightarrow> storeSettings m es = Inr m"
  by (induction es) auto

text \<open>
  C9. The byte count that \<^verbatim>\<open>maybeWriteDefaultSettingsBackToCache\<close> requests from the
  account is the sum of the sizes of exactly those entries whose key is not yet in the
  settings cache, and it is zero when every key is already cached. A write-back that
  installs its entries raises the account's usage by that sum and leaves all the keys
  present, so writing the same entries again requests nothing and changes nothing.
\<close>

theorem settings_charge_only_absent_keys:
  "sizeOfSettings m es 0 =
     sum_list (map settingsEntrySize
       (filter (\<lambda>e. map_index m (SettingsCacheKey e) = None) es))
   \<and> ((\<forall>e\<in>set es. map_index m (SettingsCacheKey e) \<noteq> None) \<longrightarrow> sizeOfSettings m es 0 = 0)
   \<and> (maybeWriteDefaultSettingsBackToCache a d es = Inr (True, a') \<and> opsLog a' = opsLog a
      \<longrightarrow> used (boundAccount a') =
            used (boundAccount a) +
            sum_list (map settingsEntrySize
              (filter (\<lambda>e. map_index (settingsCache a) (SettingsCacheKey e) = None) es))
        \<and> budget (boundAccount a') = budget (boundAccount a)
        \<and> sizeOfSettings (settingsCache a') es 0 = 0)
   \<and> ((\<forall>e\<in>set es. map_index (settingsCache a) (SettingsCacheKey e) \<noteq> None)
      \<and> dbRoleSettingsTableVersion a = d \<and> used (boundAccount a) \<le> budget (boundAccount a)
      \<longrightarrow> maybeWriteDefaultSettingsBackToCache a d es = Inr (True, a))"
proof -
  have all_present: "sizeOfSettings m' es 0 = 0"
    if "\<forall>e\<in>set es. map_index m' (SettingsCacheKey e) \<noteq> None" for m'
  proof -
    from that have "filter (\<lambda>e. map_index m' (SettingsCacheKey e) = None) es = []"
      by (simp add: filter_empty_conv)
    then show ?thesis by (simp add: sizeOfSettings_sum)
  qed
  have charged: "used (boundAccount a') =
            used (boundAccount a) +
            sum_list (map settingsEntrySize
              (filter (\<lambda>e. map_index (settingsCache a) (SettingsCacheKey e) = None) es))
        \<and> budget (boundAccount a') = budget (boundAccount a)
        \<and> sizeOfSettings (settingsCache a') es 0 = 0"
    if wb: "maybeWriteDefaultSettingsBackToCache a d es = Inr (True, a')"
      and quiet: "opsLog a' = opsLog a"
  proof -
    from wb have eq: "dbRoleSettingsTableVersion a = d"
      by (auto simp add: maybeWriteDefaultSettingsBackToCache_def split: if_splits)
    from wb quiet eq obtain acc m' where
      grow: "Grow (boundAccount a) (sizeOfSettings (settingsCache a) es 0) = Inr acc"
      and store: "storeSettings (settingsCache a) es = Inr m'"
      and a': "a' = a\<lparr>boundAccount := acc, settingsCache := m'\<rparr>"
      by (auto simp add: maybeWriteDefaultSettingsBackToCache_def Warningf_def
          split: sum.splits error.splits)
    from grow have "used acc = used (boundAccount a) + sizeOfSettings (settingsCache a) es 0"
      and "budget acc = budget (boundAccount a)"
      by (auto simp add: Grow_def split: if_splits)
    moreover from storeSettings_present [OF store] have "sizeOfSettings m' es 0 = 0"
      by (rule all_present)
    ultimately show ?thesis
      using a' by (simp add: sizeOfSettings_sum)
  qed
  have again: "maybeWriteDefaultSettingsBackToCache a d es = Inr (True, a)"
    if "\<forall>e\<in>set es. map_index (settingsCache a) (SettingsCacheKey e) \<noteq> None"
      and "dbRoleSettingsTableVersion a = d"
      and "used (boundAccount a) \<le> budget (boundAccount a)"
    using that all_present [OF that(1)] storeSettings_noop [OF that(1)]
    by (simp add: maybeWriteDefaultSettingsBackToCache_def Grow_def)
  show ?thesis
    using sizeOfSettings_sum [of m es 0] all_present [of m] charged again by simp
qed

theorem settings_charge_only_absent_keys_witness:
  "sizeOfSettings (settingsCache cacheBob3) bobSettings 0 = 51
   \<and> filter (\<lambda>e. map_index (settingsCache cacheBob3) (SettingsCacheKey e) = None) bobSettings
       = [\<lparr>SettingsCacheKey = \<lparr>DatabaseID = 0, Username = ''bob''\<rparr>, Settings = []\<rparr>]
   \<and> maybeWriteDefaultSettingsBackToCache cacheBob3 0 bobSettings = Inr (True, cacheBob4)
   \<and> used (boundAccount cacheBob3) = 0
   \<and> used (boundAccount cacheBob4) = 51
   \<and> sizeOfSettings (settingsCache cacheBob4) bobSettings 0 = 0
   \<and> maybeWriteDefaultSettingsBackToCache cacheBob4 0 bobSettings = Inr (True, cacheBob4)"
proof -
  have absent: "filter (\<lambda>e. map_index (settingsCache cacheBob3) (SettingsCacheKey e) = None)
      bobSettings = [\<lparr>SettingsCacheKey = \<lparr>DatabaseID = 0, Username = ''bob''\<rparr>, Settings = []\<rparr>]"
    by (simp add: cacheBob3_eq bobSettings_def map_index_def)
  have present: "\<forall>e\<in>set bobSettings. map_index (settingsCache cacheBob4) (SettingsCacheKey e) \<noteq> None"
    by (simp add: cacheBob4_eq bobSettings_def map_index_def)
  have fields: "used (boundAccount cacheBob3) = 0" "used (boundAccount cacheBob4) = 51"
    "opsLog cacheBob4 = opsLog cacheBob3" "dbRoleSettingsTableVersion cacheBob4 = 0"
    "used (boundAccount cacheBob4) \<le> budget (boundAccount cacheBob4)"
    by (simp_all add: cacheBob3_eq cacheBob4_eq)
  note first = settings_charge_only_absent_keys [where m = "settingsCache cacheBob3"
      and es = bobSettings and a = cacheBob3 and d = 0 and a' = cacheBob4]
  note second = settings_charge_only_absent_keys [where m = "settingsCache cacheBob4"
      and es = bobSettings and a = cacheBob4 and d = 0]
  have w1: "sizeOfSettings (settingsCache cacheBob3) bobSettings 0 = 51"
    using first absent by (simp add: settingsEntrySize_def sizeOfSettingsCacheEntry_def)
  have w2: "sizeOfSettings (settingsCache cacheBob4) bobSettings 0 = 0"
    using second present by blast
  have w3: "maybeWriteDefaultSettingsBackToCache cacheBob4 0 bobSettings = Inr (True, cacheBob4)"
    using second present fields by blast
  have w4: "used (boundAccount cacheBob4) = used (boundAccount cacheBob3) + 51"
    using first write_bob_cacheBob3 fields(3) absent
    by (simp add: settingsEntrySize_def sizeOfSettingsCacheEntry_def)
  show ?thesis using absent w1 w2 w3 w4 fields write_bob_cacheBob3 by simp
qed

subsection \<open>Write-back into a map that was never allocated\<close>

text \<open>
  \<^verbatim>\<open>NewCache\<close> leaves both mappings nil, and only the clearing branch of
  \<^verbatim>\<open>clearCacheIfStale\<close> allocates them. In every state reached from a fresh cache a
  mapping is nil only while all three watermarks are still zero, so a write-back whose
  recheck passes at a non-zero version always finds its mapping allocated.
\<close>

lemma clearCacheIfStale_nil_maps:
  assumes "authInfoCache a = None \<or> settingsCache a = None \<longrightarrow> watermarks a = (0, 0, 0)"
    and "authInfoCache (snd (clearCacheIfStale a u r d)) = None \<or>
         settingsCache (snd (clearCacheIfStale a u r d)) = None"
  shows "watermarks (snd (clearCacheIfStale a u r d)) = (0, 0, 0)"
  using assms by (auto simp add: clearCacheIfStale_def make_map_def split: if_splits)

lemma storeSettings_nil:
  "storeSettings m es = Inr m' \<Longrightarrow> m' = None \<Longrightarrow> m = None"
proof (induction es arbitrary: m)
  case Nil
  then show ?case by simp
next
  case (Cons e es)
  show ?case
  proof (cases "map_index m (SettingsCacheKey e) = None")
    case True
    with Cons.prems(1) obtain m1 where
      m1: "map_assign m (SettingsCacheKey e) (Settings e) = Inr m1"
      and rest: "storeSettings m1 es = Inr m'"
      by (auto split: sum.splits)
    from Cons.IH [OF rest Cons.prems(2)] m1 show ?thesis
      by (auto simp add: map_assign_def split: option.splits)
  next
    case False
    with Cons.prems Cons.IH show ?thesis by simp
  qed
qed

lemma applyOp_nil_maps:
  assumes step: "applyOp op a = Inr a'"
    and inv: "authInfoCache a = None \<or> settingsCache a = None \<longrightarrow> watermarks a = (0, 0, 0)"
    and nil: "authInfoCache a' = None \<or> settingsCache a' = None"
  shows "watermarks a' = (0, 0, 0)"
proof (cases op)
  case (ReadAuthInfoFromCache u r username)
  with step have eq: "a' = snd (clearCacheIfStale a u r (dbRoleSettingsTableVersion a))"
    by (simp add: readAuthInfoFromCache_state)
  show ?thesis
    using nil clearCacheIfStale_nil_maps [OF inv, of u r "dbRoleSettingsTableVersion a"]
    unfolding eq by blast
next
  case (ReadDefaultSettingsFromCache d username databaseID)
  with step have eq: "a' = snd (clearCacheIfStale a (usersTableVersion a)
      (roleOptionsTableVersion a) d)"
    by (simp add: readDefaultSettingsFromCache_state)
  show ?thesis
    using nil clearCacheIfStale_nil_maps [OF inv, of "usersTableVersion a"
        "roleOptionsTableVersion a" d]
    unfolding eq by blast
next
  case (ClearCacheIfStale u r d)
  with step have eq: "a' = snd (clearCacheIfStale a u r d)" by simp
  show ?thesis
    using nil clearCacheIfStale_nil_maps [OF inv, of u r d]
    unfolding eq by blast
next
  case (MaybeWriteAuthInfoBackToCache u r aInfo username)
  with step obtain ok where
    wb: "maybeWriteAuthInfoBackToCache a u r aInfo username = Inr (ok, a')"
    by (auto split: sum.splits)
  then have "authInfoCache a' = None \<longrightarrow> authInfoCache a = None"
    and "settingsCache a' = settingsCache a"
    by (auto simp add: maybeWriteAuthInfoBackToCache_def Warningf_fields map_assign_def
        split: if_splits sum.splits option.splits)
  with inv nil maybeWriteAuthInfoBackToCache_watermarks [OF wb] show ?thesis by auto
next
  case (MaybeWriteDefaultSettingsBackToCache d es)
  with step obtain ok where
    wb: "maybeWriteDefaultSettingsBackToCache a d es = Inr (ok, a')"
    by (auto split: sum.splits)
  then have "settingsCache a' = None \<longrightarrow> settingsCache a = None"
    and "authInfoCache a' = authInfoCache a"
    by (auto simp add: maybeWriteDefaultSettingsBackToCache_def Warningf_fields
        split: if_splits sum.splits dest: storeSettings_nil)
  with inv nil maybeWriteDefaultSettingsBackToCache_watermarks [OF wb] show ?thesis by auto
qed

lemma runOps_nil_maps:
  "runOps a ops = Inr a' \<Longrightarrow>
   (authInfoCache a = None \<or> settingsCache a = None \<longrightarrow> watermarks a = (0, 0, 0)) \<Longrightarrow>
   authInfoCache a' = None \<or> settingsCache a' = None \<longrightarrow> watermarks a' = (0, 0, 0)"
proof (induction ops arbitrary: a)
  case Nil
  then show ?case by simp
next
  case (Cons op ops)
  from Cons.prems(1) obtain a1 where
    first: "applyOp op a = Inr a1" and rest: "runOps a1 ops = Inr a'"
    by (auto split: sum.splits)
  have "authInfoCache a1 = None \<or> settingsCache a1 = None \<longrightarrow> watermarks a1 = (0, 0, 0)"
    using applyOp_nil_maps [OF first Cons.prems(2)] by blast
  from Cons.IH [OF rest this] show ?case .
qed

lemma nil_maps_only_at_zero_watermarks:
  assumes "runOps (NewCache account) ops = Inr a"
    and "authInfoCache a = None \<or> settingsCache a = None"
  shows "watermarks a = (0, 0, 0)"
  using runOps_nil_maps [OF assms(1)] assms(2)
  by (simp add: NewCache_def watermarks_def)

lemma write_back_defined_at_nonzero_versions:
  assumes "runOps (NewCache account) ops = Inr a"
  shows "u \<noteq> 0 \<or> r \<noteq> 0 \<Longrightarrow> maybeWriteAuthInfoBackToCache a u r aInfo username \<noteq> Inl p"
    and "d \<noteq> 0 \<Longrightarrow> maybeWriteDefaultSettingsBackToCache a d es \<noteq> Inl p"
proof -
  note zero = nil_maps_only_at_zero_watermarks [OF assms]
  show "maybeWriteAuthInfoBackToCache a u r aInfo username \<noteq> Inl p" if "u \<noteq> 0 \<or> r \<noteq> 0"
  proof (cases "usersTableVersion a \<noteq> u \<or> roleOptionsTableVersion a \<noteq> r")
    case True
    then show ?thesis by (auto simp add: maybeWriteAuthInfoBackToCache_def)
  next
    case False
    have "authInfoCache a \<noteq> None"
    proof
      assume "authInfoCache a = None"
      then have "watermarks a = (0, 0, 0)" using zero by blast
      with False that show False by (auto simp add: watermarks_def)
    qed
    then show ?thesis
      by (auto simp add: maybeWriteAuthInfoBackToCache_def map_assign_def
          split: sum.splits option.splits)
  qed
  show "maybeWriteDefaultSettingsBackToCache a d es \<noteq> Inl p" if "d \<noteq> 0"
  proof (cases "dbRoleSettingsTableVersion a \<noteq> d")
    case True
    then show ?thesis by (simp add: maybeWriteDefaultSettingsBackToCache_def)
  next
    case False
    have some: "settingsCache a \<noteq> None"
    proof
      assume "settingsCache a = None"
      then have "watermarks a = (0, 0, 0)" using zero by blast
      with False that show False by (auto simp add: watermarks_def)
    qed
    have "storeSettings m es \<noteq> Inl q" if "m \<noteq> None" for m q
      using that
      by (induction es arbitrary: m)
        (auto simp add: map_assign_def split: sum.splits option.splits)
    with some show ?thesis
      by (auto simp add: maybeWriteDefaultSettingsBackToCache_def split: sum.splits)
  qed
qed

text \<open>
  C10, evaluated at the input where it fails. On a freshly constructed cache a caller
  whose table versions are all zero is eligible without any clearing, misses, fetches,
  passes the version recheck and is granted the memory; the mapping is still nil, and
  the insertion panics. This holds for \<^verbatim>\<open>maybeWriteAuthInfoBackToCache\<close> and for
  \<^verbatim>\<open>maybeWriteDefaultSettingsBackToCache\<close>, and the panic reaches the caller of
  \<^verbatim>\<open>GetAuthInfo\<close> and \<^verbatim>\<open>GetDefaultSettings\<close>.
\<close>

theorem write_back_into_nil_map_panics:
  "runOps (NewCache exampleAccount) [] = Inr (NewCache exampleAccount)
   \<and> authInfoCache (NewCache exampleAccount) = None
   \<and> settingsCache (NewCache exampleAccount) = None
   \<and> watermarks (NewCache exampleAccount) = (0, 0, 0)
   \<and> readAuthInfoFromCache (NewCache exampleAccount) 0 0 ''alice'' =
       ((zeroAuthInfo, False), NewCache exampleAccount)
   \<and> Grow (boundAccount (NewCache exampleAccount)) (authInfoSizeOfEntry alice ''alice'') =
       Inr \<lparr>used = 78, budget = 4096\<rparr>
   \<and> maybeWriteAuthInfoBackToCache (NewCache exampleAccount) 0 0 alice ''alice'' =
       Inl NilMapAssignment
   \<and> GetAuthInfo (NewCache exampleAccount) True (committedAt 0 0 0) ''alice'' readAlice None
         (\<lambda>c. c) = Inl NilMapAssignment
   \<and> readDefaultSettingsFromCache (NewCache exampleAccount) 0 ''bob'' 7 =
       (([], False), NewCache exampleAccount)
   \<and> Grow (boundAccount (NewCache exampleAccount))
         (sizeOfSettings (settingsCache (NewCache exampleAccount)) bobSettings 0) =
       Inr \<lparr>used = 228, budget = 4096\<rparr>
   \<and> maybeWriteDefaultSettingsBackToCache (NewCache exampleAccount) 0 bobSettings =
       Inl NilMapAssignment
   \<and> GetDefaultSettings (NewCache exampleAccount) True (committedAt 0 0 0) ''bob''
         ''defaultdb'' readBob None (\<lambda>c. c) = Inl NilMapAssignment"
proof -
  let ?c = "NewCache exampleAccount"
  have fields: "authInfoCache ?c = None" "settingsCache ?c = None" "watermarks ?c = (0, 0, 0)"
    "usersTableVersion ?c = 0" "roleOptionsTableVersion ?c = 0"
    "dbRoleSettingsTableVersion ?c = 0" "boundAccount ?c = \<lparr>used = 0, budget = 4096\<rparr>"
    by (simp_all add: NewCache_def watermarks_def exampleAccount_def)
  have ra: "readAuthInfoFromCache ?c 0 0 ''alice'' = ((zeroAuthInfo, False), ?c)"
    by (simp add: readAuthInfoFromCache_def clearCacheIfStale_def fields map_index_def)
  have rs: "readDefaultSettingsFromCache ?c 0 ''bob'' 7 = (([], False), ?c)"
    by (simp add: readDefaultSettingsFromCache_def clearCacheIfStale_def fields map_index_def
        GenerateSettingsCacheKeys_def)
  have ga: "Grow (boundAccount ?c) (authInfoSizeOfEntry alice ''alice'') =
       Inr \<lparr>used = 78, budget = 4096\<rparr>"
    by (simp add: fields Grow_def authInfoSizeOfEntry_def alice_def sizeOfUsername_def
        sizeOfAuthInfo_def sizeOfTimestamp_def)
  have gs: "Grow (boundAccount ?c) (sizeOfSettings (settingsCache ?c) bobSettings 0) =
       Inr \<lparr>used = 228, budget = 4096\<rparr>"
    by (simp add: fields Grow_def bobSettings_def map_index_def settingsEntrySize_def
        sizeOfSettingsCacheEntry_def)
  have wa: "maybeWriteAuthInfoBackToCache ?c 0 0 alice ''alice'' = Inl NilMapAssignment"
    by (simp add: maybeWriteAuthInfoBackToCache_def ga fields(1,4,5) map_assign_def)
  have ws: "maybeWriteDefaultSettingsBackToCache ?c 0 bobSettings = Inl NilMapAssignment"
    by (simp add: maybeWriteDefaultSettingsBackToCache_def gs fields(6))
      (simp add: fields(2) bobSettings_def map_index_def map_assign_def)
  have fa: "GetAuthInfo ?c True (committedAt 0 0 0) ''alice'' readAlice None (\<lambda>c. c) =
      Inl NilMapAssignment"
    by (simp add: GetAuthInfo_miss [where u = 0 and r = 0 and fetched = alice]
        committedAt_tables ra readAlice_def wa)
  have fs: "GetDefaultSettings ?c True (committedAt 0 0 0) ''bob'' ''defaultdb'' readBob None
      (\<lambda>c. c) = Inl NilMapAssignment"
    by (simp add: GetDefaultSettings_miss [where d = 0 and databaseID = 7
          and fetched = bobSettings]
        committedAt_tables committedAt_defaultdb rs readBob_def ws)
  show ?thesis using fields ra rs ga gs wa ws fa fs by simp
qed

theorem write_back_into_nil_map_panics_witness:
  "applyOp (MaybeWriteAuthInfoBackToCache 0 0 alice ''alice'') (NewCache exampleAccount) =
     Inl NilMapAssignment
   \<and> applyOp (MaybeWriteDefaultSettingsBackToCache 0 bobSettings) (NewCache exampleAccount) =
       Inl NilMapAssignment
   \<and> runOps (NewCache exampleAccount)
         [ReadAuthInfoFromCache 0 0 ''alice'',
          MaybeWriteAuthInfoBackToCache 0 0 alice ''alice''] = Inl NilMapAssignment
   \<and> runOps (NewCache exampleAccount)
         [ReadDefaultSettingsFromCache 0 ''bob'' 7,
          MaybeWriteDefaultSettingsBackToCache 0 bobSettings] = Inl NilMapAssignment"
  using write_back_into_nil_map_panics by simp

end
